theory Spec2Isabelle
  imports Main
begin

section \<open>Errors\<close>

text \<open>
  Go errors are values. The constructors keep apart the kinds the callers tell apart:
  a plain error (\<open>fmt.Errorf\<close>, or any error of a collaborator that is none of the
  others), \<open>controller.RequeueErrorf\<close> (retryable), \<open>controller.IgnoreErrorf\<close>,
  an API error for which \<open>errors.IsNotFound\<close> holds, and the run-time panic of a nil
  pointer dereference.
\<close>

datatype error =
    Errorf string
  | RequeueErrorf string
  | IgnoreErrorf string
  | NotFound string
  | NilPointerPanic

fun IsRequeueError :: "error \<Rightarrow> bool" where
  "IsRequeueError (RequeueErrorf _) = True"
| "IsRequeueError _ = False"

fun IsNotFound :: "error \<Rightarrow> bool" where
  "IsNotFound (NotFound _) = True"
| "IsNotFound _ = False"

text \<open>\<open>err.Error()\<close>, used where an error is formatted into another one with \<open>%s\<close>.\<close>

fun Error :: "error \<Rightarrow> string" where
  "Error (Errorf s) = s"
| "Error (RequeueErrorf s) = s"
| "Error (IgnoreErrorf s) = s"
| "Error (NotFound s) = s"
| "Error NilPointerPanic = ''runtime error: invalid memory address or nil pointer dereference''"

section \<open>Data model\<close>

text \<open>
  The API types (\<open>v1alpha1.TidbCluster\<close>, \<open>apps.StatefulSet\<close>, \<open>corev1.Pod\<close>) are
  declared in packages that are not among the verified files; the records hold the fields
  the verified functions read and write, under the names of their field paths. Pointers are
  \<open>option\<close>s, Go maps are maps, \<open>int32\<close> ordinals are \<open>int\<close> (the code only compares
  and copies them). A member phase and an update strategy type are strings in the code,
  which compares them with the constants below only.
\<close>

datatype MemberPhase = NormalPhase | UpgradePhase | ScalePhase

record PDMember =
  m_Name :: string
  m_Health :: bool

record StatefulSetStatus =
  sts_Replicas :: int
  sts_CurrentRevision :: string
  sts_UpdateRevision :: string

record PDStatus =
  pd_Synced :: bool
  pd_Phase :: MemberPhase
  pd_StatefulSet :: "StatefulSetStatus option"
  pd_Members :: "string \<rightharpoonup> PDMember"
  pd_PeerMembers :: "PDMember list"
  pd_Leader :: PDMember

text \<open>
  \<open>pd_PeerMembers\<close> is a Go map ranged over by \<open>upgradePDPod\<close>; the list is its values in
  the order the range statement yields them.
\<close>

record PumpStatus =
  pump_Phase :: MemberPhase
  pump_StatefulSet :: "StatefulSetStatus option"
  pump_Members :: "string list"

record TidbCluster =
  tc_Namespace :: string
  tc_Name :: string
  Spec_ClusterDomain :: string
  Spec_Paused :: bool
  Spec_Pump_Requests :: "string \<rightharpoonup> string"
  Status_PD :: PDStatus
  Status_TiKV_Phase :: MemberPhase
  Status_TiFlash_Phase :: MemberPhase
  Status_TiCDC_Phase :: MemberPhase
  Status_Pump :: PumpStatus

datatype StatefulSetUpdateStrategyType =
  RollingUpdateStatefulSetStrategyType | OnDeleteStatefulSetStrategyType

record RollingUpdateStatefulSetStrategy =
  Partition :: "int option"

record StatefulSetUpdateStrategy =
  Type :: StatefulSetUpdateStrategyType
  RollingUpdate :: "RollingUpdateStatefulSetStrategy option"

text \<open>The pod spec \<open>'ps\<close> is opaque: the code copies and compares it whole.\<close>

record 'ps StatefulSet =
  set_Name :: string
  set_Annotations :: "string \<rightharpoonup> string"
  Spec_Replicas :: "int option"
  Spec_UpdateStrategy :: StatefulSetUpdateStrategy
  Spec_Template_Spec :: 'ps
  set_Status :: StatefulSetStatus

record Pod =
  pod_Labels :: "string \<rightharpoonup> string"

definition ControllerRevisionHashLabelKey :: string where
  "ControllerRevisionHashLabelKey = ''controller-revision-hash''"

section \<open>Collaborators of the PD upgrader\<close>

text \<open>
  \<open>u.deps\<close> (the pod lister, the CLI configuration, the PD client) and the package-level
  helpers that \<open>pd_upgrader.go\<close> calls but that are declared in other files. They are
  parameters of the model: every theorem holds for each of their behaviours.
  \<^item> \<open>PodLister_Get ns name\<close> is \<open>u.deps.PodLister.Pods(ns).Get(name)\<close>;
  \<^item> \<open>TransferPDLeader target\<close> is \<open>controller.GetPDClient(u.deps.PDControl,
    tc).TransferPDLeader(target)\<close>, \<open>None\<close> for a nil error;
  \<^item> \<open>GetPodOrdinals replicas set\<close> is the members of the \<open>sets.Int32\<close> that
    \<open>helper.GetPodOrdinals\<close> returns, in any order.
\<close>

record 'ps Dependencies =
  PodLister_Get :: "string \<Rightarrow> string \<Rightarrow> error + Pod"
  PodWebhookEnabled :: bool
  TransferPDLeader :: "string \<Rightarrow> error option"
  GetLastAppliedConfig :: "'ps StatefulSet \<Rightarrow> error + 'ps"
  templateEqual :: "'ps StatefulSet \<Rightarrow> 'ps StatefulSet \<Rightarrow> bool"
  PdPodName :: "string \<Rightarrow> int \<Rightarrow> string"
  PdName :: "string \<Rightarrow> int \<Rightarrow> string \<Rightarrow> string \<Rightarrow> string"
  GetPodOrdinals :: "int \<Rightarrow> 'ps StatefulSet \<Rightarrow> int list"
  GetMaxPodOrdinal :: "int \<Rightarrow> 'ps StatefulSet \<Rightarrow> int"
  GetMinPodOrdinal :: "int \<Rightarrow> 'ps StatefulSet \<Rightarrow> int"

text \<open>\<open>sets.Int32.List()\<close>: the members of the set in increasing order.\<close>

definition sets_List :: "int list \<Rightarrow> int list" where
  "sets_List xs = sort (remdups xs)"

text \<open>
  Modelled from the spec: \<open>setUpgradePartition\<close> is declared in another file. The spec's
  cursor is "the single integer partition value stored on the replica-group resource", with
  a setter: the rolling-update partition of the set becomes the ordinal, nothing else of the
  set changes.
\<close>

definition setUpgradePartition :: "'ps StatefulSet \<Rightarrow> int \<Rightarrow> 'ps StatefulSet" where
  "setUpgradePartition sset upgradeOrdinal =
     sset\<lparr>Spec_UpdateStrategy :=
       (Spec_UpdateStrategy sset)\<lparr>RollingUpdate := Some \<lparr>Partition = Some upgradeOrdinal\<rparr>\<rparr>\<rparr>"

text \<open>The cursor of a set: the partition of its rolling update, when it has one.\<close>

definition cursor :: "'ps StatefulSet \<Rightarrow> int option" where
  "cursor sset =
     (case RollingUpdate (Spec_UpdateStrategy sset) of None \<Rightarrow> None | Some ru \<Rightarrow> Partition ru)"

text \<open>
  Modelled from the spec: \<open>tc.PDScaling()\<close> is declared in another file; the spec's
  "mid-scale" is the PD phase \<open>Scaling\<close>.
\<close>

definition PDScaling :: "TidbCluster \<Rightarrow> bool" where
  "PDScaling tc = (pd_Phase (Status_PD tc) = ScalePhase)"

text \<open>
  Modelled from the spec: \<open>tc.PDStsActualReplicas()\<close> is declared in another file; the
  spec's "more than one live replica exists" reads the replica count of the observed PD
  StatefulSet status, 0 when there is none.
\<close>

definition PDStsActualReplicas :: "TidbCluster \<Rightarrow> int" where
  "PDStsActualReplicas tc =
     (case pd_StatefulSet (Status_PD tc) of None \<Rightarrow> 0 | Some s \<Rightarrow> sts_Replicas s)"

section \<open>The PD upgrader (\<open>pkg/manager/member/pd_upgrader.go\<close>)\<close>

text \<open>
  What one call leaves behind: the returned error, the cluster object and \<open>newSet\<close> as
  mutated, the leadership transfers requested from PD (in order), and the ordinals whose
  pod was fetched from the lister (in order).
\<close>

record 'ps Outcome =
  out_err :: "error option"
  out_tc :: TidbCluster
  out_newSet :: "'ps StatefulSet"
  out_transfers :: "string list"
  out_visited :: "int list"

definition returns :: "error option \<Rightarrow> TidbCluster \<Rightarrow> 'ps StatefulSet \<Rightarrow> 'ps Outcome" where
  "returns e tc newSet =
     \<lparr>out_err = e, out_tc = tc, out_newSet = newSet, out_transfers = [], out_visited = []\<rparr>"

text \<open>The error of each site, by line of \<open>pd_upgrader.go\<close>, with its message.\<close>

definition errSyncFailed :: "string \<Rightarrow> string \<Rightarrow> error" where
  "errSyncFailed ns tcName =
     Errorf (''tidbcluster: ['' @ ns @ ''/'' @ tcName @
             '']'s pd status sync failed, can not to be upgraded'')"

definition errGetPod :: "string \<Rightarrow> string \<Rightarrow> string \<Rightarrow> error \<Rightarrow> error" where
  "errGetPod podName ns tcName err =
     Errorf (''gracefulUpgrade: failed to get pods '' @ podName @ '' for cluster '' @ ns @
             ''/'' @ tcName @ '', error: '' @ Error err)"

definition errNoLabel :: "string \<Rightarrow> string \<Rightarrow> string \<Rightarrow> error" where
  "errNoLabel ns tcName podName =
     RequeueErrorf (''tidbcluster: ['' @ ns @ ''/'' @ tcName @ '']'s pd pod: ['' @ podName @
                    ''] has no label: '' @ ControllerRevisionHashLabelKey)"

definition errNotReady :: "string \<Rightarrow> string \<Rightarrow> string \<Rightarrow> error" where
  "errNotReady ns tcName podName =
     RequeueErrorf (''tidbcluster: ['' @ ns @ ''/'' @ tcName @ '']'s pd upgraded pod: ['' @
                    podName @ ''] is not ready'')"

definition errTransferring :: "string \<Rightarrow> string \<Rightarrow> string \<Rightarrow> string \<Rightarrow> error" where
  "errTransferring ns tcName upgradePdName target =
     RequeueErrorf (''tidbcluster: ['' @ ns @ ''/'' @ tcName @ '']'s pd member: ['' @
                    upgradePdName @ ''] is transferring leader to pd member: ['' @ target @ '']'')"

text \<open>Lines 130-135: the first healthy peer member other than the one being upgraded.\<close>

fun firstHealthyPeer :: "string \<Rightarrow> PDMember list \<Rightarrow> string" where
  "firstHealthyPeer upgradePdName [] = []"
| "firstHealthyPeer upgradePdName (member # rest) =
     (if m_Name member \<noteq> upgradePdName \<and> m_Health member then m_Name member
      else firstHealthyPeer upgradePdName rest)"

text \<open>
  Lines 119-136: the transfer target, \<open>[]\<close> when none is found. Dereferencing
  \<open>newSet.Spec.Replicas\<close> panics on nil.
\<close>

definition targetName ::
  "'ps Dependencies \<Rightarrow> TidbCluster \<Rightarrow> int \<Rightarrow> 'ps StatefulSet \<Rightarrow> error + string" where
  "targetName d tc ordinal newSet =
     (let tcName = tc_Name tc;
          upgradePdName = PdName d tcName ordinal (tc_Namespace tc) (Spec_ClusterDomain tc)
      in if PDStsActualReplicas tc > 1 then
           (case Spec_Replicas newSet of
              None \<Rightarrow> Inl NilPointerPanic
            | Some replicas \<Rightarrow>
                (let targetOrdinal0 = GetMaxPodOrdinal d replicas newSet;
                     targetOrdinal = (if ordinal = targetOrdinal0
                                      then GetMinPodOrdinal d replicas newSet
                                      else targetOrdinal0);
                     target = PdName d tcName targetOrdinal (tc_Namespace tc) (Spec_ClusterDomain tc)
                 in (case pd_Members (Status_PD tc) target of
                       None \<Rightarrow> Inr (PdPodName d tcName targetOrdinal)
                     | Some _ \<Rightarrow> Inr target)))
         else Inr (firstHealthyPeer upgradePdName (pd_PeerMembers (Status_PD tc))))"

text \<open>Line 118: the ordinal holds PD leadership, by member name or by pod name.\<close>

definition isLeader :: "'ps Dependencies \<Rightarrow> TidbCluster \<Rightarrow> int \<Rightarrow> bool" where
  "isLeader d tc ordinal =
     (m_Name (pd_Leader (Status_PD tc)) =
        PdName d (tc_Name tc) ordinal (tc_Namespace tc) (Spec_ClusterDomain tc)
      \<or> m_Name (pd_Leader (Status_PD tc)) = PdPodName d (tc_Name tc) ordinal)"

text \<open>Lines 113-149.\<close>

definition upgradePDPod ::
  "'ps Dependencies \<Rightarrow> TidbCluster \<Rightarrow> int \<Rightarrow> 'ps StatefulSet \<Rightarrow> 'ps Outcome" where
  "upgradePDPod d tc ordinal newSet =
     (let ns = tc_Namespace tc;
          tcName = tc_Name tc;
          upgradePdName = PdName d tcName ordinal (tc_Namespace tc) (Spec_ClusterDomain tc)
      in if isLeader d tc ordinal then
           (case targetName d tc ordinal newSet of
              Inl e \<Rightarrow> returns (Some e) tc newSet
            | Inr target \<Rightarrow>
                if length target > 0 then
                  (case TransferPDLeader d target of
                     Some err \<Rightarrow> (returns (Some err) tc newSet)\<lparr>out_transfers := [target]\<rparr>
                   | None \<Rightarrow>
                       (returns (Some (errTransferring ns tcName upgradePdName target)) tc newSet)
                         \<lparr>out_transfers := [target]\<rparr>)
                else returns None tc (setUpgradePartition newSet ordinal))
         else returns None tc (setUpgradePartition newSet ordinal))"

definition visit :: "int \<Rightarrow> 'ps Outcome \<Rightarrow> 'ps Outcome" where
  "visit i out = out\<lparr>out_visited := i # out_visited out\<rparr>"

text \<open>
  Lines 82-110, the loop \<open>for _i := len(podOrdinals) - 1; _i >= 0; _i--\<close>: the last
  argument \<open>Suc idx\<close> is \<open>_i + 1\<close>, the number of indices still to visit.
\<close>

fun walk ::
  "'ps Dependencies \<Rightarrow> TidbCluster \<Rightarrow> 'ps StatefulSet \<Rightarrow> int list \<Rightarrow> nat \<Rightarrow> 'ps Outcome" where
  "walk d tc newSet podOrdinals 0 = returns None tc newSet"
| "walk d tc newSet podOrdinals (Suc idx) =
     (let ns = tc_Namespace tc;
          tcName = tc_Name tc;
          i = podOrdinals ! idx;
          podName = PdPodName d tcName i
      in visit i
        (case PodLister_Get d ns podName of
           Inl err \<Rightarrow> returns (Some (errGetPod podName ns tcName err)) tc newSet
         | Inr pod \<Rightarrow>
             (case pod_Labels pod ControllerRevisionHashLabelKey of
                None \<Rightarrow> returns (Some (errNoLabel ns tcName podName)) tc newSet
              | Some revision \<Rightarrow>
                  (case pd_StatefulSet (Status_PD tc) of
                     None \<Rightarrow> returns (Some NilPointerPanic) tc newSet
                   | Some sts \<Rightarrow>
                       if revision = sts_UpdateRevision sts then
                         (case pd_Members (Status_PD tc)
                                 (PdName d tcName i (tc_Namespace tc) (Spec_ClusterDomain tc)) of
                            None \<Rightarrow> returns (Some (errNotReady ns tcName podName)) tc newSet
                          | Some member \<Rightarrow>
                              if \<not> m_Health member
                              then returns (Some (errNotReady ns tcName podName)) tc newSet
                              else walk d tc newSet podOrdinals idx)
                       else if PodWebhookEnabled d
                       then returns None tc (setUpgradePartition newSet i)
                       else upgradePDPod d tc i newSet))))"

text \<open>
  Lines 41-111. Line 66 dereferences \<open>tc.Status.PD.StatefulSet\<close>, line 80 the partition of
  the old rolling update and line 81 \<open>oldSet.Spec.Replicas\<close>: each panics on nil.
\<close>

definition gracefulUpgrade ::
  "'ps Dependencies \<Rightarrow> TidbCluster \<Rightarrow> 'ps StatefulSet \<Rightarrow> 'ps StatefulSet \<Rightarrow> 'ps Outcome" where
  "gracefulUpgrade d tc oldSet newSet =
     (let ns = tc_Namespace tc;
          tcName = tc_Name tc
      in if \<not> pd_Synced (Status_PD tc) then returns (Some (errSyncFailed ns tcName)) tc newSet
         else if Status_TiCDC_Phase tc = UpgradePhase \<or> PDScaling tc then
           (case GetLastAppliedConfig d oldSet of
              Inl err \<Rightarrow> returns (Some err) tc newSet
            | Inr podSpec \<Rightarrow> returns None tc (newSet\<lparr>Spec_Template_Spec := podSpec\<rparr>))
         else
           (let tc = tc\<lparr>Status_PD := (Status_PD tc)\<lparr>pd_Phase := UpgradePhase\<rparr>\<rparr>
            in if \<not> templateEqual d newSet oldSet then returns None tc newSet
               else
                 (case pd_StatefulSet (Status_PD tc) of
                    None \<Rightarrow> returns (Some NilPointerPanic) tc newSet
                  | Some sts \<Rightarrow>
                      if sts_UpdateRevision sts = sts_CurrentRevision sts then returns None tc newSet
                      else if Type (Spec_UpdateStrategy oldSet) = OnDeleteStatefulSetStrategyType
                              \<or> RollingUpdate (Spec_UpdateStrategy oldSet) = None then
                        returns None tc
                          (newSet\<lparr>Spec_UpdateStrategy := Spec_UpdateStrategy oldSet\<rparr>)
                      else
                        (case cursor oldSet of
                           None \<Rightarrow> returns (Some NilPointerPanic) tc newSet
                         | Some p \<Rightarrow>
                             (let newSet = setUpgradePartition newSet p
                              in (case Spec_Replicas oldSet of
                                    None \<Rightarrow> returns (Some NilPointerPanic) tc newSet
                                  | Some replicas \<Rightarrow>
                                      (let podOrdinals = sets_List (GetPodOrdinals d replicas oldSet)
                                       in walk d tc newSet podOrdinals (length podOrdinals))))))))"

text \<open>Lines 37-39.\<close>

definition Upgrade ::
  "'ps Dependencies \<Rightarrow> TidbCluster \<Rightarrow> 'ps StatefulSet \<Rightarrow> 'ps StatefulSet \<Rightarrow> 'ps Outcome" where
  "Upgrade d tc oldSet newSet = gracefulUpgrade d tc oldSet newSet"

section \<open>The pump member manager (package \<open>member\<close>, type \<open>pumpMemberManager\<close>)\<close>

record ConfigMap =
  cm_Name :: string
  cm_Data :: "string \<rightharpoonup> string"

text \<open>
  What the manager does to the cluster through its collaborators, in order: the calls of
  \<open>TypedControl.CreateOrUpdateConfigMap\<close>, \<open>StatefulSetControl.CreateStatefulSet\<close>,
  \<open>scaler.Scale\<close> and \<open>UpdateStatefulSet\<close>.
\<close>

datatype 'ps Action =
    CreateOrUpdateConfigMap ConfigMap
  | CreateStatefulSet "'ps StatefulSet"
  | Scale "'ps StatefulSet" "'ps StatefulSet"
  | UpdateStatefulSet "'ps StatefulSet" "'ps StatefulSet"

fun isCreate :: "'ps Action \<Rightarrow> bool" where
  "isCreate (CreateStatefulSet _) = True"
| "isCreate _ = False"

fun isScale :: "'ps Action \<Rightarrow> bool" where
  "isScale (Scale _ _) = True"
| "isScale _ = False"

fun isUpdate :: "'ps Action \<Rightarrow> bool" where
  "isUpdate (UpdateStatefulSet _ _) = True"
| "isUpdate _ = False"

text \<open>
  \<open>m.deps\<close>, \<open>m.scaler\<close> and the helpers that the manager calls but that are declared
  in other files, as parameters. A field named \<open>do_X\<close> is the result of the call that the
  action \<open>X\<close> records.
  \<^item> \<open>StatefulSetLister_Get ns name\<close> is \<open>StatefulSetLister.StatefulSets(ns).Get(name)\<close>;
  \<^item> \<open>Selector tc\<close> is \<open>label.New().Instance(tc.GetInstanceName()).Pump().Selector()\<close>,
    the selector as its text;
  \<^item> \<open>PodLister_List ns selector\<close> is \<open>PodLister.Pods(ns).List(selector)\<close>;
  \<^item> \<open>PumpNodeStatus tc\<close> is building the binlog client and asking it for the node
    status: either may fail, and the manager passes the error on as it is;
  \<^item> \<open>getNewPumpConfigMap\<close>, \<open>getPumpStartScript\<close> stand for the functions of that name,
    which render TOML and a script template; \<open>buildPumpStatefulSet\<close> is the object that
    lines 338-480 assemble from the cluster, the config map, the storage request and the
    start script;
  \<^item> \<open>do_Scale tc oldSet newSet\<close> returns the error with the cluster and \<open>newSet\<close> as the
    scaler leaves them.
\<close>

record 'ps PumpDependencies =
  StatefulSetLister_Get :: "string \<Rightarrow> string \<Rightarrow> error + 'ps StatefulSet"
  PumpMemberName :: "string \<Rightarrow> string"
  statefulSetIsUpgrading :: "'ps StatefulSet \<Rightarrow> bool"
  Selector :: "TidbCluster \<Rightarrow> error + string"
  PodLister_List :: "string \<Rightarrow> string \<Rightarrow> error + Pod list"
  PumpNodeStatus :: "TidbCluster \<Rightarrow> error + string list"
  getNewPumpConfigMap :: "TidbCluster \<Rightarrow> error + ConfigMap"
  FindConfigMapVolume :: "'ps \<Rightarrow> string \<Rightarrow> string"
  updateConfigMapIfNeed :: "TidbCluster \<Rightarrow> string \<Rightarrow> ConfigMap \<Rightarrow> error + ConfigMap"
  do_CreateOrUpdateConfigMap :: "TidbCluster \<Rightarrow> ConfigMap \<Rightarrow> error + ConfigMap"
  ParseStorageRequest :: "(string \<rightharpoonup> string) \<Rightarrow> error + string"
  getPumpStartScript :: "TidbCluster \<Rightarrow> error + string"
  buildPumpStatefulSet :: "TidbCluster \<Rightarrow> ConfigMap \<Rightarrow> string \<Rightarrow> string \<Rightarrow> 'ps StatefulSet"
  SetStatefulSetLastAppliedConfigAnnotation :: "'ps StatefulSet \<Rightarrow> error + 'ps StatefulSet"
  do_CreateStatefulSet :: "TidbCluster \<Rightarrow> 'ps StatefulSet \<Rightarrow> error option"
  do_Scale :: "TidbCluster \<Rightarrow> 'ps StatefulSet \<Rightarrow> 'ps StatefulSet \<Rightarrow>
               error option \<times> TidbCluster \<times> 'ps StatefulSet"
  do_UpdateStatefulSet :: "TidbCluster \<Rightarrow> 'ps StatefulSet \<Rightarrow> 'ps StatefulSet \<Rightarrow> error option"

record 'ps PumpOutcome =
  p_err :: "error option"
  p_tc :: TidbCluster
  p_actions :: "'ps Action list"

definition pumpReturns :: "error option \<Rightarrow> TidbCluster \<Rightarrow> 'ps Action list \<Rightarrow> 'ps PumpOutcome" where
  "pumpReturns e tc actions = \<lparr>p_err = e, p_tc = tc, p_actions = actions\<rparr>"

definition errListPods :: "string \<Rightarrow> string \<Rightarrow> string \<Rightarrow> error \<Rightarrow> error" where
  "errListPods ns tcName selector err =
     Errorf (''pumpStatefulSetIsUpgrading: failed to list pods for cluster '' @ ns @ ''/'' @
             tcName @ '', selector '' @ selector @ '', error: '' @ Error err)"

definition errGetSts :: "string \<Rightarrow> string \<Rightarrow> string \<Rightarrow> error \<Rightarrow> error" where
  "errGetSts name ns tcName err =
     Errorf (''syncPumpStatefulSetForTidbCluster: failed to get sts '' @ name @
             '' for cluster '' @ ns @ ''/'' @ tcName @ '', error: '' @ Error err)"

definition errParseStorage :: "string \<Rightarrow> string \<Rightarrow> error \<Rightarrow> error" where
  "errParseStorage ns tcName err =
     Errorf (''cannot parse storage request for pump, tidbcluster '' @ ns @ ''/'' @ tcName @
             '', error: '' @ Error err)"

definition errStartScript :: "string \<Rightarrow> string \<Rightarrow> error \<Rightarrow> error" where
  "errStartScript ns tcName err =
     Errorf (''cannot render start-script for pump, tidbcluster '' @ ns @ ''/'' @ tcName @
             '', error: '' @ Error err)"

text \<open>
  Lines 544-553, the loop over the listed pods. A Go result \<open>(b, nil)\<close> is \<open>Inr b\<close>, a
  result \<open>(false, err)\<close> is \<open>Inl err\<close>. Line 549 dereferences
  \<open>tc.Status.Pump.StatefulSet\<close>.
\<close>

fun scanPumpPods :: "TidbCluster \<Rightarrow> Pod list \<Rightarrow> error + bool" where
  "scanPumpPods tc [] = Inr False"
| "scanPumpPods tc (pod # rest) =
     (case pod_Labels pod ControllerRevisionHashLabelKey of
        None \<Rightarrow> Inr False
      | Some revisionHash \<Rightarrow>
          (case pump_StatefulSet (Status_Pump tc) of
             None \<Rightarrow> Inl NilPointerPanic
           | Some sts \<Rightarrow>
               if revisionHash \<noteq> sts_UpdateRevision sts then Inr True
               else scanPumpPods tc rest))"

text \<open>Lines 529-554.\<close>

definition pumpStatefulSetIsUpgrading ::
  "'ps PumpDependencies \<Rightarrow> 'ps StatefulSet \<Rightarrow> TidbCluster \<Rightarrow> error + bool" where
  "pumpStatefulSetIsUpgrading d sset tc =
     (if statefulSetIsUpgrading d sset then Inr True
      else
        (case Selector d tc of
           Inl err \<Rightarrow> Inl err
         | Inr selector \<Rightarrow>
             (case PodLister_List d (tc_Namespace tc) selector of
                Inl err \<Rightarrow> Inl (errListPods (tc_Namespace tc) (tc_Name tc) selector err)
              | Inr pumpPods \<Rightarrow> scanPumpPods tc pumpPods)))"

text \<open>Lines 159-192; a nil \<open>set\<close> is \<open>None\<close>.\<close>

definition syncTiDBClusterStatus ::
  "'ps PumpDependencies \<Rightarrow> TidbCluster \<Rightarrow> 'ps StatefulSet option \<Rightarrow> error option \<times> TidbCluster" where
  "syncTiDBClusterStatus d tc sset =
     (case sset of
        None \<Rightarrow> (None, tc)
      | Some s \<Rightarrow>
          (let tc = tc\<lparr>Status_Pump := (Status_Pump tc)\<lparr>pump_StatefulSet := Some (set_Status s)\<rparr>\<rparr>
           in (case pumpStatefulSetIsUpgrading d s tc of
                 Inl err \<Rightarrow> (Some err, tc)
               | Inr upgrading \<Rightarrow>
                   (let tc = tc\<lparr>Status_Pump := (Status_Pump tc)\<lparr>pump_Phase :=
                               (if upgrading then UpgradePhase else NormalPhase)\<rparr>\<rparr>
                    in (case PumpNodeStatus d tc of
                          Inl err \<Rightarrow> (Some err, tc)
                        | Inr status \<Rightarrow>
                            (None, tc\<lparr>Status_Pump := (Status_Pump tc)\<lparr>pump_Members := status\<rparr>\<rparr>))))))"

text \<open>
  Lines 237-257. The result carries the actions done: the config map is created or updated
  only when the steps before succeed.
\<close>

definition syncConfigMap ::
  "'ps PumpDependencies \<Rightarrow> TidbCluster \<Rightarrow> 'ps StatefulSet option \<Rightarrow>
   (error + ConfigMap) \<times> 'ps Action list" where
  "syncConfigMap d tc sset =
     (case getNewPumpConfigMap d tc of
        Inl err \<Rightarrow> (Inl err, [])
      | Inr newCm \<Rightarrow>
          (let inUseName = (case sset of
                              None \<Rightarrow> []
                            | Some s \<Rightarrow> FindConfigMapVolume d (Spec_Template_Spec s)
                                         (PumpMemberName d (tc_Name tc)))
           in (case updateConfigMapIfNeed d tc inUseName newCm of
                 Inl err \<Rightarrow> (Inl err, [])
               | Inr newCm \<Rightarrow>
                   (do_CreateOrUpdateConfigMap d tc newCm, [CreateOrUpdateConfigMap newCm]))))"

text \<open>
  Lines 322-480: the two failures of \<open>getNewPumpStatefulSet\<close>, each a plain
  \<open>fmt.Errorf\<close>, and the object built otherwise.
\<close>

definition getNewPumpStatefulSet ::
  "'ps PumpDependencies \<Rightarrow> TidbCluster \<Rightarrow> ConfigMap \<Rightarrow> error + 'ps StatefulSet" where
  "getNewPumpStatefulSet d tc cm =
     (case ParseStorageRequest d (Spec_Pump_Requests tc) of
        Inl err \<Rightarrow> Inl (errParseStorage (tc_Namespace tc) (tc_Name tc) err)
      | Inr storageRequest \<Rightarrow>
          (case getPumpStartScript d tc of
             Inl err \<Rightarrow> Inl (errStartScript (tc_Namespace tc) (tc_Name tc) err)
           | Inr startScript \<Rightarrow> Inr (buildPumpStatefulSet d tc cm storageRequest startScript)))"

text \<open>The phase check of lines 117-120.\<close>

definition otherComponentUpgrading :: "TidbCluster \<Rightarrow> bool" where
  "otherComponentUpgrading tc =
     (Status_TiCDC_Phase tc = UpgradePhase \<or> Status_TiFlash_Phase tc = UpgradePhase \<or>
      pd_Phase (Status_PD tc) = UpgradePhase \<or> Status_TiKV_Phase tc = UpgradePhase)"

text \<open>
  Lines 77-129. After a lister error that is not "not found" the function returns; otherwise
  \<open>oldSet\<close> is the deep copy of what the lister gave, nil when it was not found.
\<close>

definition syncPumpStatefulSetForTidbCluster ::
  "'ps PumpDependencies \<Rightarrow> TidbCluster \<Rightarrow> 'ps PumpOutcome" where
  "syncPumpStatefulSetForTidbCluster d tc =
     (let name = PumpMemberName d (tc_Name tc);
          got = StatefulSetLister_Get d (tc_Namespace tc) name;
          lookupFailed = (case got of Inl err \<Rightarrow> \<not> IsNotFound err | Inr _ \<Rightarrow> False);
          notFound = (case got of Inl err \<Rightarrow> IsNotFound err | Inr _ \<Rightarrow> False);
          oldSet = (case got of Inl err \<Rightarrow> None | Inr s \<Rightarrow> Some s)
      in if lookupFailed then
           pumpReturns (case got of
                   Inl err \<Rightarrow> Some (errGetSts name (tc_Namespace tc) (tc_Name tc) err)
                 | Inr _ \<Rightarrow> None) tc []
         else
           (case syncTiDBClusterStatus d tc oldSet of
              (Some err, tc) \<Rightarrow> pumpReturns (Some err) tc []
            | (None, tc) \<Rightarrow>
                if Spec_Paused tc then pumpReturns None tc []
                else
                  (case syncConfigMap d tc oldSet of
                     (Inl err, acts) \<Rightarrow> pumpReturns (Some err) tc acts
                   | (Inr cm, acts) \<Rightarrow>
                       (case getNewPumpStatefulSet d tc cm of
                          Inl err \<Rightarrow> pumpReturns (Some err) tc acts
                        | Inr newSet \<Rightarrow>
                            if notFound then
                              (case SetStatefulSetLastAppliedConfigAnnotation d newSet of
                                 Inl err \<Rightarrow> pumpReturns (Some err) tc acts
                               | Inr newSet \<Rightarrow>
                                   pumpReturns (do_CreateStatefulSet d tc newSet) tc
                                     (acts @ [CreateStatefulSet newSet]))
                            else
                              (case oldSet of
                                 None \<Rightarrow> pumpReturns (Some NilPointerPanic) tc acts
                               | Some old \<Rightarrow>
                                   (case do_Scale d tc old newSet of
                                      (Some err, tc, newSet') \<Rightarrow>
                                        pumpReturns (Some err) tc (acts @ [Scale old newSet])
                                    | (None, tc, newSet') \<Rightarrow>
                                        if otherComponentUpgrading tc
                                        then pumpReturns None tc (acts @ [Scale old newSet])
                                        else pumpReturns (do_UpdateStatefulSet d tc newSet' old) tc
                                               (acts @ [Scale old newSet,
                                                        UpdateStatefulSet newSet' old])))))))"

section \<open>The backup schedule manager (\<open>pkg/backup/backupschedule/backup_schedule_manager.go\<close>)\<close>

text \<open>
  A \<open>time.Time\<close> is an instant on the integer line (the code only orders instants);
  \<open>t.After(u)\<close> is \<open>u < t\<close>. A parsed cron schedule is its \<open>Next\<close> function.
\<close>

type_synonym time = int

definition After :: "time \<Rightarrow> time \<Rightarrow> bool" where
  "After t u = (u < t)"

record BackupSchedule =
  bs_Namespace :: string
  bs_Name :: string
  CreationTimestamp :: time
  Spec_Schedule :: string
  Spec_Pause :: bool
  Status_LastBackup :: string
  Status_LastBackupTime :: "time option"
  Status_AllBackupCleanTime :: "time option"

text \<open>
  A backup as the manager sees it: its name, the name of its job, and what
  \<open>v1alpha1.IsBackupComplete\<close>, \<open>IsBackupScheduled\<close> and \<open>IsBackupFailed\<close> say of it.
\<close>

record Backup =
  bk_Name :: string
  bk_JobName :: string
  bk_Complete :: bool
  bk_Scheduled :: bool
  bk_Failed :: bool

text \<open>
  The collaborators, as parameters. \<open>nowFn n\<close> is what the clock \<open>bm.now\<close> returns at its
  call number \<open>n\<close> (from 0) within one pass; \<open>ParseStandard\<close> is \<open>cron.ParseStandard\<close>;
  \<open>do_CreateBackup bs t\<close> is \<open>createBackup\<close> (build the backup for the scheduled time,
  hand it to the backup control), giving the name of the backup; \<open>backupGC\<close> is the
  deferred garbage collection, which creates no backup.
\<close>

record BackupDependencies =
  ParseStandard :: "string \<Rightarrow> error + (time \<Rightarrow> time)"
  nowFn :: "nat \<Rightarrow> time"
  BackupLister_Get :: "string \<Rightarrow> string \<Rightarrow> error + Backup"
  JobLister_Get :: "string \<Rightarrow> string \<Rightarrow> error + string"
  do_DeleteJob :: "Backup \<Rightarrow> string \<Rightarrow> error option"
  do_CreateBackup :: "BackupSchedule \<Rightarrow> time \<Rightarrow> error + string"
  backupGC :: "BackupSchedule \<Rightarrow> BackupSchedule"

definition errParseCron :: "string \<Rightarrow> string \<Rightarrow> string \<Rightarrow> error \<Rightarrow> error" where
  "errParseCron ns bsName schedule err =
     Errorf (''parse backup schedule '' @ ns @ ''/'' @ bsName @ '' cron format '' @ schedule @
             '' failed, err: '' @ Error err)"

definition errRefreshCleanTime :: "string \<Rightarrow> string \<Rightarrow> error" where
  "errRefreshCleanTime ns bsName =
     RequeueErrorf (''recovery backup schedule '' @ ns @ ''/'' @ bsName @
                    '' from pause status, refresh AllBackupCleanTime.'')"

definition errPaused :: "string \<Rightarrow> string \<Rightarrow> error" where
  "errPaused ns bsName =
     IgnoreErrorf (''backupSchedule '' @ ns @ ''/'' @ bsName @ '' has been paused'')"

definition errGetBackup :: "string \<Rightarrow> string \<Rightarrow> string \<Rightarrow> error \<Rightarrow> error" where
  "errGetBackup ns bsName backup err =
     Errorf (''backup schedule '' @ ns @ ''/'' @ bsName @ '', get backup '' @ backup @
             '' failed, err: '' @ Error err)"

definition errGetJob :: "string \<Rightarrow> string \<Rightarrow> string \<Rightarrow> string \<Rightarrow> error \<Rightarrow> error" where
  "errGetJob ns bsName backup job err =
     Errorf (''backup schedule '' @ ns @ ''/'' @ bsName @ '', get backup '' @ backup @
             '' job '' @ job @ '' failed, err: '' @ Error err)"

definition errStillRunning :: "string \<Rightarrow> string \<Rightarrow> string \<Rightarrow> error" where
  "errStillRunning ns bsName backup =
     RequeueErrorf (''backup schedule '' @ ns @ ''/'' @ bsName @ '', the last backup '' @
                    backup @ '' is still running'')"

text \<open>
  Lines 163-184, the loop \<open>for t := sched.Next(earliestTime); !t.After(now); t =
  sched.Next(t)\<close>: \<open>Some\<close> of the times collected when the loop ends by its condition,
  \<open>None\<close> when it is left at line 174 with more than 100 of them. The list grows at every
  turn and the loop is left once it is longer than 100, whatever \<open>Next\<close> does.
\<close>

function missedTimes :: "(time \<Rightarrow> time) \<Rightarrow> time \<Rightarrow> time \<Rightarrow> time list \<Rightarrow> time list option" where
  "missedTimes sched now t scheduledTimes =
     (if After t now then Some scheduledTimes
      else if length (scheduledTimes @ [t]) > 100 then None
      else missedTimes sched now (sched t) (scheduledTimes @ [t]))"
  by pat_completeness auto
termination
  by (relation "measure (\<lambda>(sched, now, t, scheduledTimes). 101 - length scheduledTimes)") auto

declare missedTimes.simps [simp del]

text \<open>Lines 138-152: the time the catch-up starts from.\<close>

definition earliestTime :: "BackupSchedule \<Rightarrow> time" where
  "earliestTime bs =
     (case Status_LastBackupTime bs of
        Some t \<Rightarrow> t
      | None \<Rightarrow>
          (case Status_AllBackupCleanTime bs of
             Some t \<Rightarrow> t
           | None \<Rightarrow> CreationTimestamp bs))"

text \<open>
  Lines 129-192. The result is the scheduled time (\<open>None\<close> for nil), the error, and the
  schedule object, whose \<open>AllBackupCleanTime\<close> line 178 refreshes.
\<close>

definition getLastScheduledTime ::
  "BackupDependencies \<Rightarrow> BackupSchedule \<Rightarrow> time option \<times> error option \<times> BackupSchedule" where
  "getLastScheduledTime d bs =
     (let ns = bs_Namespace bs;
          bsName = bs_Name bs
      in (case ParseStandard d (Spec_Schedule bs) of
            Inl err \<Rightarrow> (None, Some (errParseCron ns bsName (Spec_Schedule bs) err), bs)
          | Inr sched \<Rightarrow>
              (let now = nowFn d 0
               in if After (earliestTime bs) now then (None, None, bs)
                  else
                    (case missedTimes sched now (sched (earliestTime bs)) [] of
                       None \<Rightarrow>
                         if Status_LastBackupTime bs = None \<and> Status_AllBackupCleanTime bs \<noteq> None
                         then (None, Some (errRefreshCleanTime ns bsName),
                               bs\<lparr>Status_AllBackupCleanTime := Some (nowFn d 1)\<rparr>)
                         else (None, None, bs)
                     | Some scheduledTimes \<Rightarrow>
                         if length scheduledTimes = 0 then (None, None, bs)
                         else (Some (scheduledTimes ! (length scheduledTimes - 1)), None, bs)))))"

text \<open>Lines 107-125.\<close>

definition canPerformNextBackup :: "BackupDependencies \<Rightarrow> BackupSchedule \<Rightarrow> error option" where
  "canPerformNextBackup d bs =
     (let ns = bs_Namespace bs;
          bsName = bs_Name bs
      in (case BackupLister_Get d ns (Status_LastBackup bs) of
            Inl err \<Rightarrow>
              if IsNotFound err then None
              else Some (errGetBackup ns bsName (Status_LastBackup bs) err)
          | Inr backup \<Rightarrow>
              if bk_Complete backup \<or> (bk_Scheduled backup \<and> bk_Failed backup) then None
              else Some (errStillRunning ns bsName (Status_LastBackup bs))))"

text \<open>Lines 82-105; the second component is the job deleted, if one was.\<close>

definition deleteLastBackupJob ::
  "BackupDependencies \<Rightarrow> BackupSchedule \<Rightarrow> error option \<times> string list" where
  "deleteLastBackupJob d bs =
     (let ns = bs_Namespace bs;
          bsName = bs_Name bs
      in (case BackupLister_Get d ns (Status_LastBackup bs) of
            Inl err \<Rightarrow>
              if IsNotFound err then (None, [])
              else (Some (errGetBackup ns bsName (Status_LastBackup bs) err), [])
          | Inr backup \<Rightarrow>
              (let jobName = bk_JobName backup
               in (case JobLister_Get d ns jobName of
                     Inl err \<Rightarrow>
                       if IsNotFound err then (None, [])
                       else (Some (errGetJob ns bsName (bk_Name backup) jobName err), [])
                   | Inr job \<Rightarrow> (do_DeleteJob d backup job, [job])))))"

text \<open>
  What one \<open>Sync\<close> leaves behind: the error, the schedule object, the scheduled times for
  which a backup was asked of the backup control, and the jobs deleted.
\<close>

record SyncOutcome =
  s_err :: "error option"
  s_bs :: BackupSchedule
  s_created :: "time list"
  s_deletedJobs :: "string list"

text \<open>Lines 50-80; the deferred \<open>backupGC\<close> runs on the schedule object at every return.\<close>

definition Sync :: "BackupDependencies \<Rightarrow> BackupSchedule \<Rightarrow> SyncOutcome" where
  "Sync d bs =
     (if Spec_Pause bs then
        \<lparr>s_err = Some (errPaused (bs_Namespace bs) (bs_Name bs)), s_bs = backupGC d bs,
         s_created = [], s_deletedJobs = []\<rparr>
      else
        (case canPerformNextBackup d bs of
           Some err \<Rightarrow> \<lparr>s_err = Some err, s_bs = backupGC d bs, s_created = [], s_deletedJobs = []\<rparr>
         | None \<Rightarrow>
             (case getLastScheduledTime d bs of
                (None, err, bs) \<Rightarrow>
                  \<lparr>s_err = err, s_bs = backupGC d bs, s_created = [], s_deletedJobs = []\<rparr>
              | (Some scheduledTime, err, bs) \<Rightarrow>
                  (case deleteLastBackupJob d bs of
                     (Some err, jobs) \<Rightarrow>
                       \<lparr>s_err = None, s_bs = backupGC d bs, s_created = [], s_deletedJobs = jobs\<rparr>
                   | (None, jobs) \<Rightarrow>
                       (case do_CreateBackup d bs scheduledTime of
                          Inl err \<Rightarrow>
                            \<lparr>s_err = Some err, s_bs = backupGC d bs,
                             s_created = [scheduledTime], s_deletedJobs = jobs\<rparr>
                        | Inr backupName \<Rightarrow>
                            \<lparr>s_err = None,
                             s_bs = backupGC d (bs\<lparr>Status_LastBackup := backupName,
                                                  Status_LastBackupTime := Some scheduledTime,
                                                  Status_AllBackupCleanTime := None\<rparr>),
                             s_created = [scheduledTime], s_deletedJobs = jobs\<rparr>)))))"

section \<open>Predicates of the statements\<close>

text \<open>Line 61: the cluster object with the PD phase set to \<open>UpgradePhase\<close>.\<close>

definition markUpgrading :: "TidbCluster \<Rightarrow> TidbCluster" where
  "markUpgrading tc = tc\<lparr>Status_PD := (Status_PD tc)\<lparr>pd_Phase := UpgradePhase\<rparr>\<rparr>"

text \<open>The revision label of the pod of ordinal \<open>i\<close>, when the lister has the pod and the pod the label.\<close>

definition podRevision :: "'ps Dependencies \<Rightarrow> TidbCluster \<Rightarrow> int \<Rightarrow> string option" where
  "podRevision d tc i =
     (case PodLister_Get d (tc_Namespace tc) (PdPodName d (tc_Name tc) i) of
        Inl err \<Rightarrow> None
      | Inr pod \<Rightarrow> pod_Labels pod ControllerRevisionHashLabelKey)"

text \<open>Ordinal \<open>i\<close> is revision-mismatched: its label differs from the update revision.\<close>

definition revisionMismatched :: "'ps Dependencies \<Rightarrow> TidbCluster \<Rightarrow> int \<Rightarrow> bool" where
  "revisionMismatched d tc i =
     (case (podRevision d tc i, pd_StatefulSet (Status_PD tc)) of
        (Some revision, Some sts) \<Rightarrow> revision \<noteq> sts_UpdateRevision sts
      | _ \<Rightarrow> False)"

text \<open>Ordinal \<open>i\<close> carries the update revision and has a healthy member record.\<close>

definition upgradedHealthy :: "'ps Dependencies \<Rightarrow> TidbCluster \<Rightarrow> int \<Rightarrow> bool" where
  "upgradedHealthy d tc i =
     (case (podRevision d tc i, pd_StatefulSet (Status_PD tc)) of
        (Some revision, Some sts) \<Rightarrow>
          revision = sts_UpdateRevision sts \<and>
          (case pd_Members (Status_PD tc)
                  (PdName d (tc_Name tc) i (tc_Namespace tc) (Spec_ClusterDomain tc)) of
             None \<Rightarrow> False
           | Some member \<Rightarrow> m_Health member)
      | _ \<Rightarrow> False)"

text \<open>
  The pods the walk fetches, as a function of the live ordinals (in increasing order): from
  the highest ordinal downward, every ordinal that is upgraded and healthy, and then the
  first one that is not, where the walk stops.
\<close>

definition walkLog :: "(int \<Rightarrow> bool) \<Rightarrow> int list \<Rightarrow> int list" where
  "walkLog upgraded live =
     takeWhile upgraded (rev live) @ take 1 (dropWhile upgraded (rev live))"

text \<open>
  The pass gets to the strategy check of line 70: PD synced, the pass not blocked, the
  templates equal, revision drift present.
\<close>

definition reachesStrategyCheck ::
  "'ps Dependencies \<Rightarrow> TidbCluster \<Rightarrow> 'ps StatefulSet \<Rightarrow> 'ps StatefulSet \<Rightarrow> bool" where
  "reachesStrategyCheck d tc oldSet newSet =
     (pd_Synced (Status_PD tc) \<and> Status_TiCDC_Phase tc \<noteq> UpgradePhase \<and> \<not> PDScaling tc \<and>
      templateEqual d newSet oldSet \<and>
      (case pd_StatefulSet (Status_PD tc) of
         None \<Rightarrow> False
       | Some sts \<Rightarrow> sts_UpdateRevision sts \<noteq> sts_CurrentRevision sts))"

text \<open>The pass gets to the per-ordinal walk: the strategy is the managed rolling update.\<close>

definition reachesWalk ::
  "'ps Dependencies \<Rightarrow> TidbCluster \<Rightarrow> 'ps StatefulSet \<Rightarrow> 'ps StatefulSet \<Rightarrow> bool" where
  "reachesWalk d tc oldSet newSet =
     (reachesStrategyCheck d tc oldSet newSet \<and>
      Type (Spec_UpdateStrategy oldSet) \<noteq> OnDeleteStatefulSetStrategyType \<and>
      RollingUpdate (Spec_UpdateStrategy oldSet) \<noteq> None)"

text \<open>What the StatefulSet lister answers for the pump set of the cluster (line 78).\<close>

definition pumpSetLookup :: "'ps PumpDependencies \<Rightarrow> TidbCluster \<Rightarrow> error + 'ps StatefulSet" where
  "pumpSetLookup d tc = StatefulSetLister_Get d (tc_Namespace tc) (PumpMemberName d (tc_Name tc))"

definition oldPumpSet :: "'ps PumpDependencies \<Rightarrow> TidbCluster \<Rightarrow> 'ps StatefulSet option" where
  "oldPumpSet d tc = (case pumpSetLookup d tc of Inl err \<Rightarrow> None | Inr s \<Rightarrow> Some s)"

text \<open>
  The pass gets to \<open>getNewPumpStatefulSet\<close> (line 100): the lookup did not fail other than
  by "not found", the status sync succeeded, the cluster is not paused and the config map
  sync succeeded.
\<close>

definition reachesNewSet :: "'ps PumpDependencies \<Rightarrow> TidbCluster \<Rightarrow> bool" where
  "reachesNewSet d tc =
     ((case pumpSetLookup d tc of Inl err \<Rightarrow> IsNotFound err | Inr s \<Rightarrow> True) \<and>
      (case syncTiDBClusterStatus d tc (oldPumpSet d tc) of
         (Some err, tc') \<Rightarrow> False
       | (None, tc') \<Rightarrow>
           \<not> Spec_Paused tc' \<and>
           (case fst (syncConfigMap d tc' (oldPumpSet d tc)) of
              Inl err \<Rightarrow> False
            | Inr cm \<Rightarrow> True)))"


section \<open>A concrete cluster for the examples\<close>

fun showNat :: "nat \<Rightarrow> string" where
  "showNat n =
     (if n < 10 then [''0123456789'' ! n]
      else showNat (n div 10) @ [''0123456789'' ! (n mod 10)])"

declare showNat.simps [simp del]

text \<open>The decimal text of an integer, as \<open>%d\<close> prints it.\<close>

definition showInt :: "int \<Rightarrow> string" where
  "showInt i = (if i < 0 then ''-'' @ showNat (nat (- i)) else showNat (nat i))"

definition exPdPodName :: "string \<Rightarrow> int \<Rightarrow> string" where
  "exPdPodName tcName ordinal = tcName @ ''-pd-'' @ showInt ordinal"

definition exPdName :: "string \<Rightarrow> int \<Rightarrow> string \<Rightarrow> string \<Rightarrow> string" where
  "exPdName tcName ordinal ns clusterDomain =
     (if length clusterDomain > 0
      then exPdPodName tcName ordinal @ ''.'' @ tcName @ ''-pd-peer.'' @ ns @ ''.svc.'' @ clusterDomain
      else exPdPodName tcName ordinal)"

definition LastAppliedConfigAnnotation :: string where
  "LastAppliedConfigAnnotation = ''pingcap.com/last-applied-configuration''"

definition exPod :: "string \<Rightarrow> Pod" where
  "exPod revision = \<lparr>pod_Labels = [ControllerRevisionHashLabelKey \<mapsto> revision]\<rparr>"

definition exDeps :: "bool \<Rightarrow> (int \<times> Pod) list \<Rightarrow> string Dependencies" where
  "exDeps webhook pods =
     \<lparr>PodLister_Get = (\<lambda>ns name.
          case find (\<lambda>(i, pod). exPdPodName ''db'' i = name) pods of
            None \<Rightarrow> Inl (NotFound name)
          | Some (i, pod) \<Rightarrow> Inr pod),
      PodWebhookEnabled = webhook,
      TransferPDLeader = (\<lambda>target. None),
      GetLastAppliedConfig = (\<lambda>s.
          case set_Annotations s LastAppliedConfigAnnotation of
            None \<Rightarrow> Inl (Errorf ''not found spec's apply config'')
          | Some podSpec \<Rightarrow> Inr podSpec),
      templateEqual = (\<lambda>new old.
          set_Annotations old LastAppliedConfigAnnotation = Some (Spec_Template_Spec new)),
      PdPodName = exPdPodName,
      PdName = exPdName,
      GetPodOrdinals = (\<lambda>replicas s. [0..replicas - 1]),
      GetMaxPodOrdinal = (\<lambda>replicas s. replicas - 1),
      GetMinPodOrdinal = (\<lambda>replicas s. if replicas \<le> 0 then - 1 else 0)\<rparr>"

definition exPods :: "int \<Rightarrow> int \<Rightarrow> (int \<times> Pod) list" where
  "exPods n k = map (\<lambda>i. (i, exPod (if k \<le> i then ''rev2'' else ''rev1''))) [0..n - 1]"

definition exCluster :: "int \<Rightarrow> string \<Rightarrow> TidbCluster" where
  "exCluster n leader =
     \<lparr>tc_Namespace = ''ns'', tc_Name = ''db'', Spec_ClusterDomain = [], Spec_Paused = False,
      Spec_Pump_Requests = [''storage'' \<mapsto> ''10Gi''],
      Status_PD = \<lparr>pd_Synced = True, pd_Phase = NormalPhase,
        pd_StatefulSet = Some \<lparr>sts_Replicas = n, sts_CurrentRevision = ''rev1'',
                                sts_UpdateRevision = ''rev2''\<rparr>,
        pd_Members = map_of (map (\<lambda>i. (exPdPodName ''db'' i,
                                \<lparr>m_Name = exPdPodName ''db'' i, m_Health = True\<rparr>)) [0..n - 1]),
        pd_PeerMembers = [],
        pd_Leader = \<lparr>m_Name = leader, m_Health = True\<rparr>\<rparr>,
      Status_TiKV_Phase = NormalPhase, Status_TiFlash_Phase = NormalPhase,
      Status_TiCDC_Phase = NormalPhase,
      Status_Pump = \<lparr>pump_Phase = NormalPhase, pump_StatefulSet = None, pump_Members = []\<rparr>\<rparr>"

definition exSet :: "int \<Rightarrow> int \<Rightarrow> string StatefulSet" where
  "exSet n p =
     \<lparr>set_Name = ''db-pd'',
      set_Annotations = [LastAppliedConfigAnnotation \<mapsto> ''pd:v2''],
      Spec_Replicas = Some n,
      Spec_UpdateStrategy = \<lparr>Type = RollingUpdateStatefulSetStrategyType,
                             RollingUpdate = Some \<lparr>Partition = Some p\<rparr>\<rparr>,
      Spec_Template_Spec = ''pd:v2'',
      set_Status = \<lparr>sts_Replicas = n, sts_CurrentRevision = ''rev1'',
                    sts_UpdateRevision = ''rev2''\<rparr>\<rparr>"

text \<open>The same cluster with no revision drift: current and update revision agree.\<close>

definition exIdleCluster :: TidbCluster where
  "exIdleCluster =
     (exCluster 3 [])\<lparr>Status_PD := (Status_PD (exCluster 3 []))\<lparr>pd_StatefulSet :=
        Some \<lparr>sts_Replicas = 3, sts_CurrentRevision = ''rev2'', sts_UpdateRevision = ''rev2''\<rparr>\<rparr>\<rparr>"

text \<open>The cluster while TiCDC is upgrading, and the same with the PD status not synced.\<close>

definition exBlockedCluster :: TidbCluster where
  "exBlockedCluster = (exCluster 3 [])\<lparr>Status_TiCDC_Phase := UpgradePhase\<rparr>"

definition exUnsyncedCluster :: TidbCluster where
  "exUnsyncedCluster =
     exBlockedCluster\<lparr>Status_PD := (Status_PD exBlockedCluster)\<lparr>pd_Synced := False\<rparr>\<rparr>"

text \<open>An old set without the last-applied-configuration annotation.\<close>

definition exBareSet :: "string StatefulSet" where
  "exBareSet = (exSet 3 3)\<lparr>set_Annotations := Map.empty\<rparr>"

text \<open>A new set whose pod template differs from the one last applied.\<close>

definition exNewSet :: "string StatefulSet" where
  "exNewSet = (exSet 3 3)\<lparr>Spec_Template_Spec := ''pd:v3''\<rparr>"

text \<open>An old set whose update strategy was changed by hand to \<open>OnDelete\<close>.\<close>

definition exOnDeleteSet :: "string StatefulSet" where
  "exOnDeleteSet =
     (exSet 3 3)\<lparr>Spec_UpdateStrategy :=
        \<lparr>Type = OnDeleteStatefulSetStrategyType, RollingUpdate = None\<rparr>\<rparr>"

text \<open>
  A single-replica cluster led by ordinal 0, whose peer members are ordinal 0 itself and an
  unhealthy peer.
\<close>

definition exSoloCluster :: TidbCluster where
  "exSoloCluster =
     (exCluster 1 ''db-pd-0'')\<lparr>Status_PD := (Status_PD (exCluster 1 ''db-pd-0''))\<lparr>pd_PeerMembers :=
        [\<lparr>m_Name = ''db-pd-0'', m_Health = True\<rparr>, \<lparr>m_Name = ''db-pd-1'', m_Health = False\<rparr>]\<rparr>\<rparr>"

text \<open>
  Collaborators of the pump manager for the examples: the lister answers \<open>got\<close>, the pod
  lister \<open>pods\<close>; a storage quantity is well-formed when it is digits followed by one of the
  binary suffixes; nothing else fails.
\<close>

definition exQuantityOk :: "string \<Rightarrow> bool" where
  "exQuantityOk q =
     (takeWhile (\<lambda>c. c \<in> set ''0123456789'') q \<noteq> [] \<and>
      dropWhile (\<lambda>c. c \<in> set ''0123456789'') q \<in> set [[], ''Ki'', ''Mi'', ''Gi'', ''Ti''])"

definition exParseStorageRequest :: "(string \<rightharpoonup> string) \<Rightarrow> error + string" where
  "exParseStorageRequest req =
     (case req ''storage'' of
        None \<Rightarrow> Inr []
      | Some q \<Rightarrow>
          if exQuantityOk q then Inr q
          else Inl (Errorf (''cannot parse storage quantity '' @ q)))"

definition exPumpSet :: "TidbCluster \<Rightarrow> string StatefulSet" where
  "exPumpSet tc =
     \<lparr>set_Name = tc_Name tc @ ''-pump'',
      set_Annotations = Map.empty,
      Spec_Replicas = Some 1,
      Spec_UpdateStrategy = \<lparr>Type = RollingUpdateStatefulSetStrategyType, RollingUpdate = None\<rparr>,
      Spec_Template_Spec = ''pump:v2'',
      set_Status = \<lparr>sts_Replicas = 0, sts_CurrentRevision = [], sts_UpdateRevision = []\<rparr>\<rparr>"

definition exPumpDeps :: "error + string StatefulSet \<Rightarrow> Pod list \<Rightarrow> string PumpDependencies" where
  "exPumpDeps got pods =
     \<lparr>StatefulSetLister_Get = (\<lambda>ns name. got),
      PumpMemberName = (\<lambda>tcName. tcName @ ''-pump''),
      statefulSetIsUpgrading = (\<lambda>s.
        sts_CurrentRevision (set_Status s) \<noteq> sts_UpdateRevision (set_Status s)),
      Selector = (\<lambda>tc. Inr (''app.kubernetes.io/component=pump,app.kubernetes.io/instance='' @
                             tc_Name tc)),
      PodLister_List = (\<lambda>ns selector. Inr pods),
      PumpNodeStatus = (\<lambda>tc. Inr []),
      getNewPumpConfigMap = (\<lambda>tc.
        Inr \<lparr>cm_Name = tc_Name tc @ ''-pump'', cm_Data = [''pump-config'' \<mapsto> []]\<rparr>),
      FindConfigMapVolume = (\<lambda>podSpec namePrefix. namePrefix),
      updateConfigMapIfNeed = (\<lambda>tc inUseName cm. Inr cm),
      do_CreateOrUpdateConfigMap = (\<lambda>tc cm. Inr cm),
      ParseStorageRequest = exParseStorageRequest,
      getPumpStartScript = (\<lambda>tc. Inr ''/pump -config=/etc/pump/pump.toml''),
      buildPumpStatefulSet = (\<lambda>tc cm storageRequest startScript. exPumpSet tc),
      SetStatefulSetLastAppliedConfigAnnotation = (\<lambda>s.
        Inr (s\<lparr>set_Annotations :=
               (set_Annotations s)(LastAppliedConfigAnnotation \<mapsto> Spec_Template_Spec s)\<rparr>)),
      do_CreateStatefulSet = (\<lambda>tc s. None),
      do_Scale = (\<lambda>tc old new. (None, tc, new)),
      do_UpdateStatefulSet = (\<lambda>tc new old. None)\<rparr>"

text \<open>The cluster paused, and the cluster with a malformed pump storage request.\<close>

definition exPausedCluster :: TidbCluster where
  "exPausedCluster = (exCluster 3 [])\<lparr>Spec_Paused := True\<rparr>"

definition exBadStorageCluster :: TidbCluster where
  "exBadStorageCluster = (exCluster 3 [])\<lparr>Spec_Pump_Requests := [''storage'' \<mapsto> ''ten gigs'']\<rparr>"

text \<open>
  The cluster with an observed pump set at update revision \<open>rev2\<close>, and three pump pods: one
  at the update revision, one without the revision label, one at the old revision.
\<close>

definition exPumpCluster :: TidbCluster where
  "exPumpCluster =
     (exCluster 3 [])\<lparr>Status_Pump := \<lparr>pump_Phase = NormalPhase,
        pump_StatefulSet = Some \<lparr>sts_Replicas = 3, sts_CurrentRevision = ''rev2'',
                                  sts_UpdateRevision = ''rev2''\<rparr>,
        pump_Members = []\<rparr>\<rparr>"

definition exObservedPumpSet :: "string StatefulSet" where
  "exObservedPumpSet =
     (exPumpSet exPumpCluster)\<lparr>set_Status :=
        \<lparr>sts_Replicas = 3, sts_CurrentRevision = ''rev2'', sts_UpdateRevision = ''rev2''\<rparr>\<rparr>"

definition exPumpPods :: "Pod list" where
  "exPumpPods = [exPod ''rev2'', \<lparr>pod_Labels = Map.empty\<rparr>, exPod ''rev1'']"

text \<open>
  A schedule that fires at every multiple of 60, with a clock at 100000 and the last backup
  at 0: 1666 scheduled times were missed.
\<close>

definition exBackupDeps :: BackupDependencies where
  "exBackupDeps =
     \<lparr>ParseStandard = (\<lambda>schedule.
        if schedule = ''* * * * *'' then Inr (\<lambda>t. (t div 60 + 1) * 60)
        else Inl (Errorf (''bad cron format '' @ schedule))),
      nowFn = (\<lambda>n. 100000 + int n),
      BackupLister_Get = (\<lambda>ns name. Inl (NotFound name)),
      JobLister_Get = (\<lambda>ns name. Inl (NotFound name)),
      do_DeleteJob = (\<lambda>backup job. None),
      do_CreateBackup = (\<lambda>bs t. Inr (bs_Name bs @ ''-'' @ showNat (nat t))),
      backupGC = (\<lambda>bs. bs)\<rparr>"

definition exSchedule :: BackupSchedule where
  "exSchedule =
     \<lparr>bs_Namespace = ''ns'', bs_Name = ''nightly'', CreationTimestamp = 0,
      Spec_Schedule = ''* * * * *'', Spec_Pause = False, Status_LastBackup = [],
      Status_LastBackupTime = Some 0, Status_AllBackupCleanTime = None\<rparr>"

section \<open>Lemmas on the PD upgrader\<close>

lemma returns_sel [simp]:
  "out_err (returns e tc s) = e"
  "out_tc (returns e tc s) = tc"
  "out_newSet (returns e tc s) = s"
  "out_transfers (returns e tc s) = []"
  "out_visited (returns e tc s) = []"
  by (simp_all add: returns_def)

lemma visit_sel [simp]:
  "out_err (visit i out) = out_err out"
  "out_tc (visit i out) = out_tc out"
  "out_newSet (visit i out) = out_newSet out"
  "out_transfers (visit i out) = out_transfers out"
  "out_visited (visit i out) = i # out_visited out"
  by (simp_all add: visit_def)

lemma cursor_setUpgradePartition [simp]: "cursor (setUpgradePartition s i) = Some i"
  by (simp add: cursor_def setUpgradePartition_def)

lemma setUpgradePartition_twice [simp]:
  "setUpgradePartition (setUpgradePartition s p) i = setUpgradePartition s i"
  by (simp add: setUpgradePartition_def)

lemma setUpgradePartition_sel [simp]:
  "Spec_Replicas (setUpgradePartition s i) = Spec_Replicas s"
  "Spec_Template_Spec (setUpgradePartition s i) = Spec_Template_Spec s"
  "Type (Spec_UpdateStrategy (setUpgradePartition s i)) = Type (Spec_UpdateStrategy s)"
  by (simp_all add: setUpgradePartition_def)

lemma upgradePDPod_sel [simp]:
  "out_tc (upgradePDPod d tc i s) = tc"
  "out_visited (upgradePDPod d tc i s) = []"
  by (simp_all add: upgradePDPod_def Let_def split: sum.splits option.splits)

lemma upgradePDPod_not_leader:
  "\<not> isLeader d tc i \<Longrightarrow> upgradePDPod d tc i s = returns None tc (setUpgradePartition s i)"
  by (simp add: upgradePDPod_def)

lemma upgradePDPod_no_target:
  "targetName d tc i s = Inr [] \<Longrightarrow> upgradePDPod d tc i s = returns None tc (setUpgradePartition s i)"
  by (simp add: upgradePDPod_def Let_def)

lemma upgradePDPod_transfer:
  "isLeader d tc i \<Longrightarrow> targetName d tc i s = Inr t \<Longrightarrow> t \<noteq> [] \<Longrightarrow>
   upgradePDPod d tc i s =
     (returns (Some (case TransferPDLeader d t of
                       Some err \<Rightarrow> err
                     | None \<Rightarrow> errTransferring (tc_Namespace tc) (tc_Name tc)
                         (PdName d (tc_Name tc) i (tc_Namespace tc) (Spec_ClusterDomain tc)) t))
        tc s)\<lparr>out_transfers := [t]\<rparr>"
  by (simp add: upgradePDPod_def Let_def split: option.splits)

lemma upgradePDPod_newSet:
  "out_newSet (upgradePDPod d tc i s) = s \<or>
   (upgradePDPod d tc i s = returns None tc (setUpgradePartition s i))"
  by (simp add: upgradePDPod_def Let_def split: sum.splits option.splits)

lemma walk_tc [simp]: "out_tc (walk d tc s os n) = tc"
  by (induction n) (simp_all add: Let_def split: sum.splits option.splits)

lemma markUpgrading_sel [simp]:
  "podRevision d (markUpgrading tc) i = podRevision d tc i"
  "revisionMismatched d (markUpgrading tc) i = revisionMismatched d tc i"
  "upgradedHealthy d (markUpgrading tc) i = upgradedHealthy d tc i"
  "isLeader d (markUpgrading tc) i = isLeader d tc i"
  "targetName d (markUpgrading tc) i s = targetName d tc i s"
  "tc_Namespace (markUpgrading tc) = tc_Namespace tc"
  "tc_Name (markUpgrading tc) = tc_Name tc"
  "Spec_ClusterDomain (markUpgrading tc) = Spec_ClusterDomain tc"
  by (simp_all add: markUpgrading_def podRevision_def revisionMismatched_def upgradedHealthy_def
        isLeader_def targetName_def PDStsActualReplicas_def Let_def
        cong: option.case_cong sum.case_cong)

lemma walk_Suc_upgraded:
  "upgradedHealthy d tc (os ! idx) \<Longrightarrow>
   walk d tc s os (Suc idx) = visit (os ! idx) (walk d tc s os idx)"
  by (auto simp: upgradedHealthy_def podRevision_def Let_def split: sum.splits option.splits)

lemma walk_Suc_mismatched:
  "revisionMismatched d tc (os ! idx) \<Longrightarrow>
   walk d tc s os (Suc idx) =
     visit (os ! idx)
       (if PodWebhookEnabled d then returns None tc (setUpgradePartition s (os ! idx))
        else upgradePDPod d tc (os ! idx) s)"
  by (auto simp: revisionMismatched_def podRevision_def Let_def split: sum.splits option.splits)

lemma walk_Suc_halt:
  "\<not> upgradedHealthy d tc (os ! idx) \<Longrightarrow> \<not> revisionMismatched d tc (os ! idx) \<Longrightarrow>
   \<exists>e. walk d tc s os (Suc idx) = visit (os ! idx) (returns (Some e) tc s)"
  by (auto simp: upgradedHealthy_def revisionMismatched_def podRevision_def Let_def
           split: sum.splits option.splits)

declare walk.simps(2) [simp del]

text \<open>
  The walk leaves the set as it found it, or sets the cursor to one ordinal: a mismatched
  one, below ordinals that all carry the target revision and are healthy.
\<close>

lemma walk_sets:
  "out_newSet (walk d tc s os n) = s \<or>
   (\<exists>idx<n. walk d tc s os (Suc idx) = visit (os ! idx) (returns None tc (setUpgradePartition s (os ! idx))) \<and>
      out_newSet (walk d tc s os n) = setUpgradePartition s (os ! idx) \<and>
      out_err (walk d tc s os n) = None \<and>
      out_transfers (walk d tc s os n) = [] \<and>
      revisionMismatched d tc (os ! idx) \<and>
      (\<forall>j. idx < j \<and> j < n \<longrightarrow> upgradedHealthy d tc (os ! j)))"
proof (induction n)
  case 0
  show ?case by simp
next
  case (Suc n)
  consider (up) "upgradedHealthy d tc (os ! n)"
    | (mis) "\<not> upgradedHealthy d tc (os ! n)" "revisionMismatched d tc (os ! n)"
    | (halt) "\<not> upgradedHealthy d tc (os ! n)" "\<not> revisionMismatched d tc (os ! n)"
    by blast
  then show ?case
  proof cases
    case up
    have eq: "walk d tc s os (Suc n) = visit (os ! n) (walk d tc s os n)"
      by (rule walk_Suc_upgraded [OF up])
    from Suc.IH show ?thesis
    proof
      assume "out_newSet (walk d tc s os n) = s"
      then show ?thesis by (simp add: eq)
    next
      assume "\<exists>idx<n. walk d tc s os (Suc idx) = visit (os ! idx) (returns None tc (setUpgradePartition s (os ! idx))) \<and>
        out_newSet (walk d tc s os n) = setUpgradePartition s (os ! idx) \<and>
        out_err (walk d tc s os n) = None \<and> out_transfers (walk d tc s os n) = [] \<and>
        revisionMismatched d tc (os ! idx) \<and>
        (\<forall>j. idx < j \<and> j < n \<longrightarrow> upgradedHealthy d tc (os ! j))"
      then obtain idx where idx: "idx < n"
        "walk d tc s os (Suc idx) = visit (os ! idx) (returns None tc (setUpgradePartition s (os ! idx)))"
        "out_newSet (walk d tc s os n) = setUpgradePartition s (os ! idx)"
        "out_err (walk d tc s os n) = None" "out_transfers (walk d tc s os n) = []"
        "revisionMismatched d tc (os ! idx)"
        "\<forall>j. idx < j \<and> j < n \<longrightarrow> upgradedHealthy d tc (os ! j)"
        by blast
      have "\<forall>j. idx < j \<and> j < Suc n \<longrightarrow> upgradedHealthy d tc (os ! j)"
        using idx(7) up by (auto simp: less_Suc_eq)
      with idx have "idx < Suc n \<and>
        walk d tc s os (Suc idx) = visit (os ! idx) (returns None tc (setUpgradePartition s (os ! idx))) \<and>
        out_newSet (walk d tc s os (Suc n)) = setUpgradePartition s (os ! idx) \<and>
        out_err (walk d tc s os (Suc n)) = None \<and> out_transfers (walk d tc s os (Suc n)) = [] \<and>
        revisionMismatched d tc (os ! idx) \<and>
        (\<forall>j. idx < j \<and> j < Suc n \<longrightarrow> upgradedHealthy d tc (os ! j))"
        by (simp add: eq)
      then show ?thesis by blast
    qed
  next
    case mis
    note eq = walk_Suc_mismatched [OF mis(2), of s]
    show ?thesis
    proof (cases "PodWebhookEnabled d")
      case True
      with eq mis(2) have "n < Suc n \<and>
        walk d tc s os (Suc n) = visit (os ! n) (returns None tc (setUpgradePartition s (os ! n))) \<and>
        out_newSet (walk d tc s os (Suc n)) = setUpgradePartition s (os ! n) \<and>
        out_err (walk d tc s os (Suc n)) = None \<and> out_transfers (walk d tc s os (Suc n)) = [] \<and>
        revisionMismatched d tc (os ! n) \<and>
        (\<forall>j. n < j \<and> j < Suc n \<longrightarrow> upgradedHealthy d tc (os ! j))"
        by auto
      then show ?thesis by blast
    next
      case False
      from upgradePDPod_newSet [of d tc "os ! n" s] show ?thesis
      proof
        assume "out_newSet (upgradePDPod d tc (os ! n) s) = s"
        with eq False show ?thesis by simp
      next
        assume "upgradePDPod d tc (os ! n) s = returns None tc (setUpgradePartition s (os ! n))"
        with eq False mis(2) have "n < Suc n \<and>
          walk d tc s os (Suc n) = visit (os ! n) (returns None tc (setUpgradePartition s (os ! n))) \<and>
          out_newSet (walk d tc s os (Suc n)) = setUpgradePartition s (os ! n) \<and>
          out_err (walk d tc s os (Suc n)) = None \<and> out_transfers (walk d tc s os (Suc n)) = [] \<and>
          revisionMismatched d tc (os ! n) \<and>
          (\<forall>j. n < j \<and> j < Suc n \<longrightarrow> upgradedHealthy d tc (os ! j))"
          by auto
        then show ?thesis by blast
      qed
    qed
  next
    case halt
    from walk_Suc_halt [OF halt, of s] obtain e where
      "walk d tc s os (Suc n) = visit (os ! n) (returns (Some e) tc s)" by blast
    then show ?thesis by simp
  qed
qed

text \<open>While the ordinals above \<open>idx\<close> are upgraded and healthy, the walk goes on to \<open>idx\<close>.\<close>

lemma walk_reaches:
  "idx \<le> n \<Longrightarrow> (\<forall>j. idx \<le> j \<and> j < n \<longrightarrow> upgradedHealthy d tc (os ! j)) \<Longrightarrow>
   out_err (walk d tc s os n) = out_err (walk d tc s os idx) \<and>
   out_newSet (walk d tc s os n) = out_newSet (walk d tc s os idx) \<and>
   out_transfers (walk d tc s os n) = out_transfers (walk d tc s os idx) \<and>
   out_visited (walk d tc s os n) = rev (map ((!) os) [idx..<n]) @ out_visited (walk d tc s os idx)"
proof (induction n)
  case 0
  then show ?case by simp
next
  case (Suc n)
  show ?case
  proof (cases "idx = Suc n")
    case True
    then show ?thesis by simp
  next
    case False
    with Suc.prems have le: "idx \<le> n" by simp
    with Suc.prems have up: "upgradedHealthy d tc (os ! n)" by simp
    have "\<forall>j. idx \<le> j \<and> j < n \<longrightarrow> upgradedHealthy d tc (os ! j)"
      using Suc.prems by simp
    from Suc.IH [OF le this] show ?thesis
      using le by (simp add: walk_Suc_upgraded [OF up])
  qed
qed

lemma walk_visited: "\<exists>m\<le>n. out_visited (walk d tc s os n) = rev (map ((!) os) [m..<n])"
proof (induction n)
  case 0
  show ?case by simp
next
  case (Suc n)
  consider (up) "upgradedHealthy d tc (os ! n)"
    | (mis) "revisionMismatched d tc (os ! n)"
    | (halt) "\<not> upgradedHealthy d tc (os ! n)" "\<not> revisionMismatched d tc (os ! n)"
    by blast
  then show ?case
  proof cases
    case up
    from Suc.IH obtain m where "m \<le> n" "out_visited (walk d tc s os n) = rev (map ((!) os) [m..<n])"
      by blast
    then have "m \<le> Suc n \<and> out_visited (walk d tc s os (Suc n)) = rev (map ((!) os) [m..<Suc n])"
      by (simp add: walk_Suc_upgraded [OF up])
    then show ?thesis by blast
  next
    case mis
    have "n \<le> Suc n \<and> out_visited (walk d tc s os (Suc n)) = rev (map ((!) os) [n..<Suc n])"
      by (simp add: walk_Suc_mismatched [OF mis])
    then show ?thesis by blast
  next
    case halt
    from walk_Suc_halt [OF halt, of s] obtain e where
      "walk d tc s os (Suc n) = visit (os ! n) (returns (Some e) tc s)" by blast
    then have "n \<le> Suc n \<and> out_visited (walk d tc s os (Suc n)) = rev (map ((!) os) [n..<Suc n])"
      by simp
    then show ?thesis by blast
  qed
qed

lemma gracefulUpgrade_walk:
  "reachesWalk d tc oldSet newSet \<Longrightarrow> cursor oldSet = Some p \<Longrightarrow>
   Spec_Replicas oldSet = Some replicas \<Longrightarrow>
   gracefulUpgrade d tc oldSet newSet =
     walk d (markUpgrading tc) (setUpgradePartition newSet p)
       (sets_List (GetPodOrdinals d replicas oldSet))
       (length (sets_List (GetPodOrdinals d replicas oldSet)))"
  by (auto simp: reachesWalk_def reachesStrategyCheck_def gracefulUpgrade_def markUpgrading_def Let_def
           split: option.splits)

lemma sets_List_sorted: "sorted_wrt (<) (sets_List xs)"
  by (simp add: sets_List_def strict_sorted_iff)

lemma sorted_above_index:
  fixes xs :: "int list"
  assumes "sorted_wrt (<) xs" and "idx < length xs"
    and "\<forall>j. idx < j \<and> j < length xs \<longrightarrow> P (xs ! j)"
  shows "\<forall>y\<in>set xs. xs ! idx < y \<longrightarrow> P y"
proof (intro ballI impI)
  fix y assume "y \<in> set xs" and less: "xs ! idx < y"
  then obtain j where j: "j < length xs" "xs ! j = y" by (auto simp: in_set_conv_nth)
  have "idx < j"
  proof (rule ccontr)
    assume "\<not> idx < j"
    then have "j = idx \<or> j < idx" by auto
    then have "xs ! j \<le> xs ! idx"
      using sorted_wrt_nth_less [OF assms(1), of j idx] assms(2) by auto
    with less j show False by simp
  qed
  with assms(3) j show "P y" by auto
qed

lemma sorted_index_above:
  fixes xs :: "int list"
  assumes "sorted_wrt (<) xs" and "idx < length xs"
    and "\<forall>y\<in>set xs. xs ! idx < y \<longrightarrow> P y"
  shows "\<forall>j. idx < j \<and> j < length xs \<longrightarrow> P (xs ! j)"
  using assms sorted_wrt_nth_less [OF assms(1)] by auto

lemma drop_as_map_nth: "map ((!) xs) [m..<length xs] = drop m xs"
  by (simp add: list_eq_iff_nth_eq)

lemma firstHealthyPeer_none:
  "\<forall>member\<in>set ms. m_Name member = upgradePdName \<or> \<not> m_Health member \<Longrightarrow>
   firstHealthyPeer upgradePdName ms = []"
  by (induction ms) auto

lemma Upgrade_walk:
  "reachesWalk d tc oldSet newSet \<Longrightarrow> cursor oldSet = Some p \<Longrightarrow>
   Spec_Replicas oldSet = Some replicas \<Longrightarrow>
   Upgrade d tc oldSet newSet =
     walk d (markUpgrading tc) (setUpgradePartition newSet p)
       (sets_List (GetPodOrdinals d replicas oldSet))
       (length (sets_List (GetPodOrdinals d replicas oldSet)))"
  by (simp add: Upgrade_def gracefulUpgrade_walk)

lemma mismatched_not_upgraded:
  "revisionMismatched d tc i \<Longrightarrow> \<not> upgradedHealthy d tc i"
  by (auto simp: revisionMismatched_def upgradedHealthy_def split: option.splits)

lemma upgradedHealthy_markUpgrading:
  "upgradedHealthy d (markUpgrading tc) = upgradedHealthy d tc"
  by (rule ext) simp

text \<open>The pods fetched by the walk over the first \<open>n\<close> live ordinals.\<close>

lemma walk_visited_exact:
  "n \<le> length os \<Longrightarrow>
   out_visited (walk d tc s os n) = walkLog (upgradedHealthy d tc) (take n os)"
proof (induction n)
  case 0
  show ?case by (simp add: walkLog_def)
next
  case (Suc n)
  then have n: "n < length os" by simp
  have split: "rev (take (Suc n) os) = os ! n # rev (take n os)"
    using n by (simp add: take_Suc_conv_app_nth)
  consider (up) "upgradedHealthy d tc (os ! n)"
    | (mis) "revisionMismatched d tc (os ! n)"
    | (halt) "\<not> upgradedHealthy d tc (os ! n)" "\<not> revisionMismatched d tc (os ! n)"
    by blast
  then show ?case
  proof cases
    case up
    from Suc.IH n have "out_visited (walk d tc s os n) = walkLog (upgradedHealthy d tc) (take n os)"
      by simp
    with up show ?thesis
      by (simp add: walk_Suc_upgraded [OF up] walkLog_def split)
  next
    case mis
    from mismatched_not_upgraded [OF mis] show ?thesis
      by (simp add: walk_Suc_mismatched [OF mis] walkLog_def split)
  next
    case halt
    from walk_Suc_halt [OF halt, of s] obtain e where
      "walk d tc s os (Suc n) = visit (os ! n) (returns (Some e) tc s)" by blast
    with halt(1) show ?thesis by (simp add: walkLog_def split)
  qed
qed

lemma walkLog_hd:
  "live \<noteq> [] \<Longrightarrow> walkLog upgraded live \<noteq> [] \<and> hd (walkLog upgraded live) = last live"
  by (cases live rule: rev_cases) (simp_all add: walkLog_def)

text \<open>When the walk stops at index \<open>idx\<close>, it has fetched the ordinals from there upward.\<close>

lemma walk_visited_stop:
  assumes "idx < length os"
    and "\<forall>j. idx < j \<and> j < length os \<longrightarrow> upgradedHealthy d tc (os ! j)"
    and "out_visited (walk d tc s os (Suc idx)) = [os ! idx]"
  shows "out_visited (walk d tc s os (length os)) = rev (drop idx os)"
proof -
  have le: "Suc idx \<le> length os" using assms(1) by simp
  have up: "\<forall>j. Suc idx \<le> j \<and> j < length os \<longrightarrow> upgradedHealthy d tc (os ! j)"
    using assms(2) by (simp add: Suc_le_eq)
  from walk_reaches [OF le up, of s]
  have "out_visited (walk d tc s os (length os)) =
      rev (map ((!) os) [Suc idx..<length os]) @ [os ! idx]"
    using assms(3) by simp
  also have "\<dots> = rev (map ((!) os) [idx..<length os])"
    using assms(1) by (simp add: upt_conv_Cons)
  also have "\<dots> = rev (drop idx os)"
    by (simp add: drop_as_map_nth)
  finally show ?thesis .
qed

lemma sorted_filter_ge_drop:
  fixes xs :: "int list"
  assumes "sorted_wrt (<) xs" and "idx < length xs"
  shows "filter (\<lambda>j. xs ! idx \<le> j) xs = drop idx xs"
proof -
  have low: "filter (\<lambda>j. xs ! idx \<le> j) (take idx xs) = []"
  proof -
    have "\<not> xs ! idx \<le> x" if "x \<in> set (take idx xs)" for x
    proof -
      from that obtain j where "j < idx" "xs ! j = x"
        using assms(2) by (auto simp: in_set_conv_nth)
      with sorted_wrt_nth_less [OF assms(1), of j idx] assms(2) show ?thesis by auto
    qed
    then show ?thesis by (simp add: filter_empty_conv)
  qed
  have high: "filter (\<lambda>j. xs ! idx \<le> j) (drop idx xs) = drop idx xs"
  proof -
    have "xs ! idx \<le> x" if "x \<in> set (drop idx xs)" for x
    proof -
      from that obtain j where j: "j < length xs - idx" "xs ! (idx + j) = x"
        by (auto simp: in_set_conv_nth)
      show ?thesis
      proof (cases "j = 0")
        case True
        with j show ?thesis by simp
      next
        case False
        with j have "idx < idx + j" "idx + j < length xs" by simp_all
        from sorted_wrt_nth_less [OF assms(1) this] j show ?thesis by simp
      qed
    qed
    then show ?thesis by (simp add: filter_id_conv)
  qed
  have "filter (\<lambda>j. xs ! idx \<le> j) xs =
      filter (\<lambda>j. xs ! idx \<le> j) (take idx xs @ drop idx xs)"
    by simp
  also have "\<dots> = drop idx xs"
    unfolding filter_append low high by simp
  finally show ?thesis .
qed

section \<open>Properties of the PD upgrader\<close>

text \<open>
  C9. Whenever the PD status is synced and the pass is not blocked (TiCDC not upgrading, PD
  not scaling), \<open>gracefulUpgrade\<close> sets the PD phase to \<open>UpgradePhase\<close> and changes
  nothing else of the cluster object, whatever the templates and the revisions are; on a
  pass with no revision drift it does so too, and then returns without error, \<open>newSet\<close>
  untouched.
\<close>

theorem gracefulUpgrade_marks_phase:
  "pd_Synced (Status_PD tc) \<Longrightarrow> Status_TiCDC_Phase tc \<noteq> UpgradePhase \<Longrightarrow> \<not> PDScaling tc \<Longrightarrow>
   out_tc (gracefulUpgrade d tc oldSet newSet) =
     tc\<lparr>Status_PD := (Status_PD tc)\<lparr>pd_Phase := UpgradePhase\<rparr>\<rparr> \<and>
   pd_Phase (Status_PD (out_tc (gracefulUpgrade d tc oldSet newSet))) = UpgradePhase \<and>
   ((\<exists>sts. pd_StatefulSet (Status_PD tc) = Some sts \<and>
           sts_UpdateRevision sts = sts_CurrentRevision sts) \<longrightarrow>
    gracefulUpgrade d tc oldSet newSet =
      returns None (tc\<lparr>Status_PD := (Status_PD tc)\<lparr>pd_Phase := UpgradePhase\<rparr>\<rparr>) newSet)"
  by (auto simp: gracefulUpgrade_def Let_def split: sum.splits option.splits)

theorem gracefulUpgrade_marks_phase_witness:
  "pd_Synced (Status_PD exIdleCluster) \<and>
   Status_TiCDC_Phase exIdleCluster \<noteq> UpgradePhase \<and>
   \<not> PDScaling exIdleCluster \<and>
   pd_Phase (Status_PD exIdleCluster) = NormalPhase \<and>
   pd_Phase (Status_PD (out_tc (gracefulUpgrade (exDeps False (exPods 3 3)) exIdleCluster
      (exSet 3 3) (exSet 3 3)))) = UpgradePhase \<and>
   out_err (gracefulUpgrade (exDeps False (exPods 3 3)) exIdleCluster (exSet 3 3) (exSet 3 3)) = None"
proof -
  have h1: "pd_Synced (Status_PD exIdleCluster)" by code_simp
  have h2: "Status_TiCDC_Phase exIdleCluster \<noteq> UpgradePhase" by code_simp
  have h3: "\<not> PDScaling exIdleCluster" by code_simp
  have h4: "\<exists>sts. pd_StatefulSet (Status_PD exIdleCluster) = Some sts \<and>
              sts_UpdateRevision sts = sts_CurrentRevision sts"
    by (simp add: exIdleCluster_def)
  have h5: "pd_Phase (Status_PD exIdleCluster) = NormalPhase" by code_simp
  from gracefulUpgrade_marks_phase [OF h1 h2 h3, of "exDeps False (exPods 3 3)" "exSet 3 3" "exSet 3 3"] h4
  have "pd_Phase (Status_PD (out_tc (gracefulUpgrade (exDeps False (exPods 3 3)) exIdleCluster
      (exSet 3 3) (exSet 3 3)))) = UpgradePhase"
    and "gracefulUpgrade (exDeps False (exPods 3 3)) exIdleCluster (exSet 3 3) (exSet 3 3) =
      returns None (exIdleCluster\<lparr>Status_PD := (Status_PD exIdleCluster)\<lparr>pd_Phase := UpgradePhase\<rparr>\<rparr>)
        (exSet 3 3)"
    by blast+
  with h1 h2 h3 h5 show ?thesis by simp
qed

text \<open>
  C2. On a pass that reaches the per-ordinal walk, the pods are fetched from the highest live
  ordinal downward, without a gap: the highest first, then every ordinal that carries the
  target revision with a healthy member, through the first ordinal that does not, where the
  walk stops. The walk sets the cursor to \<open>i\<close> only when \<open>i\<close> is revision-mismatched and
  every live ordinal above \<open>i\<close> carries the target revision with a healthy member, and it
  has then fetched exactly the live ordinals from the highest down to \<open>i\<close>; and it does set
  the cursor to such an \<open>i\<close> (one ordinal per pass) when the pod webhook is enabled or \<open>i\<close>
  does not hold PD leadership.
\<close>

theorem gracefulUpgrade_descending_walk:
  assumes "reachesWalk d tc oldSet newSet"
    and "cursor oldSet = Some p"
    and "Spec_Replicas oldSet = Some replicas"
  shows "let live = sets_List (GetPodOrdinals d replicas oldSet);
             out = gracefulUpgrade d tc oldSet newSet
         in out_visited out = walkLog (upgradedHealthy d tc) live \<and>
            (live \<noteq> [] \<longrightarrow> out_visited out \<noteq> [] \<and> hd (out_visited out) = last live) \<and>
            sorted_wrt (>) (out_visited out) \<and>
            (\<exists>m. out_visited out = rev (drop m live)) \<and>
            (out_newSet out = setUpgradePartition newSet p \<or>
             (\<exists>i\<in>set live. out_newSet out = setUpgradePartition newSet i \<and>
                 revisionMismatched d tc i \<and>
                 (\<forall>j\<in>set live. i < j \<longrightarrow> upgradedHealthy d tc j) \<and>
                 out_visited out = rev (filter (\<lambda>j. i \<le> j) live))) \<and>
            (\<forall>i\<in>set live.
                revisionMismatched d tc i \<and>
                (\<forall>j\<in>set live. i < j \<longrightarrow> upgradedHealthy d tc j) \<and>
                (PodWebhookEnabled d \<or> \<not> isLeader d tc i) \<longrightarrow>
                out_newSet out = setUpgradePartition newSet i \<and> out_err out = None \<and>
                out_visited out = rev (filter (\<lambda>j. i \<le> j) live))"
proof -
  define live where "live = sets_List (GetPodOrdinals d replicas oldSet)"
  define tc' where "tc' = markUpgrading tc"
  define s where "s = setUpgradePartition newSet p"
  define out where "out = gracefulUpgrade d tc oldSet newSet"
  have out: "out = walk d tc' s live (length live)"
    unfolding out_def tc'_def s_def live_def by (rule gracefulUpgrade_walk [OF assms])
  have sorted: "sorted_wrt (<) live"
    unfolding live_def by (rule sets_List_sorted)
  have exact: "out_visited out = walkLog (upgradedHealthy d tc) live"
    using walk_visited_exact [of "length live" live d tc' s]
    by (simp add: out tc'_def upgradedHealthy_markUpgrading)
  have first: "out_visited out \<noteq> [] \<and> hd (out_visited out) = last live" if "live \<noteq> []"
    using walkLog_hd [OF that] by (simp add: exact)
  have visited: "\<exists>m. out_visited out = rev (drop m live)"
    using walk_visited [of "length live" d tc' s live] by (auto simp: out drop_as_map_nth)
  then obtain m where m: "out_visited out = rev (drop m live)" by blast
  have "sorted_wrt (<) (drop m live)"
    using sorted by (rule sorted_wrt_drop)
  then have desc: "sorted_wrt (>) (out_visited out)"
    by (simp add: m sorted_wrt_rev)
  have sets: "out_newSet out = setUpgradePartition newSet p \<or>
      (\<exists>i\<in>set live. out_newSet out = setUpgradePartition newSet i \<and>
          revisionMismatched d tc i \<and> (\<forall>j\<in>set live. i < j \<longrightarrow> upgradedHealthy d tc j) \<and>
          out_visited out = rev (filter (\<lambda>j. i \<le> j) live))"
  proof -
    from walk_sets [of d tc' s live "length live"] show ?thesis
    proof
      assume "out_newSet (walk d tc' s live (length live)) = s"
      then show ?thesis by (simp add: out s_def)
    next
      assume "\<exists>idx<length live.
        walk d tc' s live (Suc idx) =
          visit (live ! idx) (returns None tc' (setUpgradePartition s (live ! idx))) \<and>
        out_newSet (walk d tc' s live (length live)) = setUpgradePartition s (live ! idx) \<and>
        out_err (walk d tc' s live (length live)) = None \<and>
        out_transfers (walk d tc' s live (length live)) = [] \<and>
        revisionMismatched d tc' (live ! idx) \<and>
        (\<forall>j. idx < j \<and> j < length live \<longrightarrow> upgradedHealthy d tc' (live ! j))"
      then obtain idx where idx: "idx < length live"
        "out_newSet out = setUpgradePartition s (live ! idx)"
        "revisionMismatched d tc (live ! idx)"
        "\<forall>j. idx < j \<and> j < length live \<longrightarrow> upgradedHealthy d tc (live ! j)"
        and stop: "walk d tc' s live (Suc idx) =
          visit (live ! idx) (returns None tc' (setUpgradePartition s (live ! idx)))"
        and up': "\<forall>j. idx < j \<and> j < length live \<longrightarrow> upgradedHealthy d tc' (live ! j)"
        by (auto simp: out tc'_def)
      have "out_visited (walk d tc' s live (Suc idx)) = [live ! idx]"
        by (simp add: stop)
      from walk_visited_stop [OF idx(1) up' this]
      have log: "out_visited out = rev (filter (\<lambda>j. live ! idx \<le> j) live)"
        by (simp add: out sorted_filter_ge_drop [OF sorted idx(1)])
      have "\<forall>y\<in>set live. live ! idx < y \<longrightarrow> upgradedHealthy d tc y"
        by (rule sorted_above_index [OF sorted idx(1) idx(4)])
      moreover have "live ! idx \<in> set live" using idx(1) by simp
      ultimately show ?thesis using idx(2,3) log by (auto simp: s_def)
    qed
  qed
  have progress: "out_newSet out = setUpgradePartition newSet i \<and> out_err out = None \<and>
      out_visited out = rev (filter (\<lambda>j. i \<le> j) live)"
    if i: "i \<in> set live" and mis: "revisionMismatched d tc i"
      and above: "\<forall>j\<in>set live. i < j \<longrightarrow> upgradedHealthy d tc j"
      and free: "PodWebhookEnabled d \<or> \<not> isLeader d tc i" for i
  proof -
    from i obtain idx where idx: "idx < length live" "live ! idx = i"
      by (auto simp: in_set_conv_nth)
    have abv: "\<forall>j. idx < j \<and> j < length live \<longrightarrow> upgradedHealthy d tc (live ! j)"
      using sorted_index_above [OF sorted idx(1), of "upgradedHealthy d tc"] above idx(2)
      by simp
    then have up: "\<forall>j. Suc idx \<le> j \<and> j < length live \<longrightarrow> upgradedHealthy d tc' (live ! j)"
      by (simp add: tc'_def Suc_le_eq)
    from abv have up': "\<forall>j. idx < j \<and> j < length live \<longrightarrow> upgradedHealthy d tc' (live ! j)"
      by (simp add: tc'_def)
    have le: "Suc idx \<le> length live" using idx(1) by simp
    have last: "walk d tc' s live (Suc idx) = visit i (returns None tc' (setUpgradePartition s i))"
      using mis free idx(2)
      by (auto simp: walk_Suc_mismatched tc'_def upgradePDPod_not_leader)
    then have "out_visited (walk d tc' s live (Suc idx)) = [live ! idx]"
      by (simp add: idx(2))
    from walk_visited_stop [OF idx(1) up' this]
    have log: "out_visited out = rev (filter (\<lambda>j. i \<le> j) live)"
      using sorted_filter_ge_drop [OF sorted idx(1)] by (simp add: out idx(2))
    from walk_reaches [OF le up, of s] have "out_newSet out = setUpgradePartition s i \<and> out_err out = None"
      by (simp add: out last)
    with log show ?thesis by (simp add: s_def)
  qed
  show ?thesis
    unfolding Let_def live_def [symmetric] out_def [symmetric]
    using exact first desc visited sets progress by blast
qed

theorem gracefulUpgrade_descending_walk_witness:
  "map (\<lambda>k. cursor (out_newSet (gracefulUpgrade (exDeps False (exPods 5 k)) (exCluster 5 [])
                                  (exSet 5 k) (exSet 5 5))))
       [5, 4, 3, 2, 1] = [Some 4, Some 3, Some 2, Some 1, Some 0] \<and>
   map (\<lambda>k. out_visited (gracefulUpgrade (exDeps False (exPods 5 k)) (exCluster 5 [])
                            (exSet 5 k) (exSet 5 5)))
       [5, 4, 3, 2, 1] = [[4], [4, 3], [4, 3, 2], [4, 3, 2, 1], [4, 3, 2, 1, 0]]"
proof -
  have stage: "cursor (out_newSet (gracefulUpgrade (exDeps False (exPods 5 k)) (exCluster 5 [])
                 (exSet 5 k) (exSet 5 5))) = Some (k - 1) \<and>
               out_visited (gracefulUpgrade (exDeps False (exPods 5 k)) (exCluster 5 [])
                 (exSet 5 k) (exSet 5 5)) = log"
    if reach: "reachesWalk (exDeps False (exPods 5 k)) (exCluster 5 []) (exSet 5 k) (exSet 5 5)"
      and cur: "cursor (exSet 5 k) = Some k"
      and rep: "Spec_Replicas (exSet 5 k) = Some 5"
      and live: "k - 1 \<in> set (sets_List (GetPodOrdinals (exDeps False (exPods 5 k)) 5 (exSet 5 k)))"
      and mis: "revisionMismatched (exDeps False (exPods 5 k)) (exCluster 5 []) (k - 1)"
      and above: "\<forall>j\<in>set (sets_List (GetPodOrdinals (exDeps False (exPods 5 k)) 5 (exSet 5 k))).
                    k - 1 < j \<longrightarrow> upgradedHealthy (exDeps False (exPods 5 k)) (exCluster 5 []) j"
      and free: "\<not> isLeader (exDeps False (exPods 5 k)) (exCluster 5 []) (k - 1)"
      and log: "rev (filter (\<lambda>j. k - 1 \<le> j)
                  (sets_List (GetPodOrdinals (exDeps False (exPods 5 k)) 5 (exSet 5 k)))) = log"
    for k log
    using gracefulUpgrade_descending_walk [OF reach cur rep] live mis above free log
    by (auto simp: Let_def)
  have s5: "cursor (out_newSet (gracefulUpgrade (exDeps False (exPods 5 5)) (exCluster 5 [])
              (exSet 5 5) (exSet 5 5))) = Some (5 - 1) \<and>
            out_visited (gracefulUpgrade (exDeps False (exPods 5 5)) (exCluster 5 [])
              (exSet 5 5) (exSet 5 5)) = [4]"
    by (rule stage; code_simp)
  have s4: "cursor (out_newSet (gracefulUpgrade (exDeps False (exPods 5 4)) (exCluster 5 [])
              (exSet 5 4) (exSet 5 5))) = Some (4 - 1) \<and>
            out_visited (gracefulUpgrade (exDeps False (exPods 5 4)) (exCluster 5 [])
              (exSet 5 4) (exSet 5 5)) = [4, 3]"
    by (rule stage; code_simp)
  have s3: "cursor (out_newSet (gracefulUpgrade (exDeps False (exPods 5 3)) (exCluster 5 [])
              (exSet 5 3) (exSet 5 5))) = Some (3 - 1) \<and>
            out_visited (gracefulUpgrade (exDeps False (exPods 5 3)) (exCluster 5 [])
              (exSet 5 3) (exSet 5 5)) = [4, 3, 2]"
    by (rule stage; code_simp)
  have s2: "cursor (out_newSet (gracefulUpgrade (exDeps False (exPods 5 2)) (exCluster 5 [])
              (exSet 5 2) (exSet 5 5))) = Some (2 - 1) \<and>
            out_visited (gracefulUpgrade (exDeps False (exPods 5 2)) (exCluster 5 [])
              (exSet 5 2) (exSet 5 5)) = [4, 3, 2, 1]"
    by (rule stage; code_simp)
  have s1: "cursor (out_newSet (gracefulUpgrade (exDeps False (exPods 5 1)) (exCluster 5 [])
              (exSet 5 1) (exSet 5 5))) = Some (1 - 1) \<and>
            out_visited (gracefulUpgrade (exDeps False (exPods 5 1)) (exCluster 5 [])
              (exSet 5 1) (exSet 5 5)) = [4, 3, 2, 1, 0]"
    by (rule stage; code_simp)
  from s5 s4 s3 s2 s1 show ?thesis by simp
qed

text \<open>
  C1, as the code has it. A pass that reaches the per-ordinal walk and in which the live
  ordinal \<open>k\<close> is revision-mismatched and holds PD leadership does not move the cursor to
  \<open>k\<close> when the pod webhook is disabled and a transfer target is found: the cursor of \<open>newSet\<close> is \<open>k\<close> afterwards only if the
  partition of \<open>oldSet\<close>, which line 80 carries over, was \<open>k\<close> already. When the walk gets to
  \<open>k\<close> (the live ordinals above it upgraded and healthy), the pass requests one transfer, to
  that target, and returns an error (the transfer's own, or the retryable "transferring
  leader" one), the cursor left at the old partition.
\<close>

theorem Upgrade_leader_transfer_first:
  assumes "reachesWalk d tc oldSet newSet"
    and "cursor oldSet = Some p"
    and "Spec_Replicas oldSet = Some replicas"
    and "k \<in> set (sets_List (GetPodOrdinals d replicas oldSet))"
    and "revisionMismatched d tc k"
    and "isLeader d tc k"
    and "\<not> PodWebhookEnabled d"
    and "targetName d tc k (setUpgradePartition newSet p) = Inr target"
    and "target \<noteq> []"
  shows "(cursor (out_newSet (Upgrade d tc oldSet newSet)) = Some k \<longrightarrow> p = k) \<and>
         ((\<forall>j\<in>set (sets_List (GetPodOrdinals d replicas oldSet)).
              k < j \<longrightarrow> upgradedHealthy d tc j) \<longrightarrow>
          out_newSet (Upgrade d tc oldSet newSet) = setUpgradePartition newSet p \<and>
          out_transfers (Upgrade d tc oldSet newSet) = [target] \<and>
          out_err (Upgrade d tc oldSet newSet) =
            Some (case TransferPDLeader d target of
                    Some err \<Rightarrow> err
                  | None \<Rightarrow> errTransferring (tc_Namespace tc) (tc_Name tc)
                      (PdName d (tc_Name tc) k (tc_Namespace tc) (Spec_ClusterDomain tc)) target))"
proof -
  define live where "live = sets_List (GetPodOrdinals d replicas oldSet)"
  define tc' where "tc' = markUpgrading tc"
  define s where "s = setUpgradePartition newSet p"
  define out where "out = Upgrade d tc oldSet newSet"
  define e where "e = (case TransferPDLeader d target of
                    Some err \<Rightarrow> err
                  | None \<Rightarrow> errTransferring (tc_Namespace tc) (tc_Name tc)
                      (PdName d (tc_Name tc) k (tc_Namespace tc) (Spec_ClusterDomain tc)) target)"
  have out: "out = walk d tc' s live (length live)"
    unfolding out_def tc'_def s_def live_def by (rule Upgrade_walk [OF assms(1-3)])
  have sorted: "sorted_wrt (<) live"
    unfolding live_def by (rule sets_List_sorted)
  have pod: "upgradePDPod d tc' k s = (returns (Some e) tc' s)\<lparr>out_transfers := [target]\<rparr>"
    using upgradePDPod_transfer [of d tc' k s target] assms(6,8,9)
    by (simp add: tc'_def s_def e_def cong: option.case_cong)
  have step: "walk d tc' s live (Suc idx) =
      visit k ((returns (Some e) tc' s)\<lparr>out_transfers := [target]\<rparr>)"
    if "live ! idx = k" for idx
    using walk_Suc_mismatched [of d tc' live idx s] assms(5,7) that pod
    by (simp add: tc'_def)
  have safe: "p = k" if "cursor (out_newSet out) = Some k"
  proof -
    from walk_sets [of d tc' s live "length live"] show ?thesis
    proof
      assume "out_newSet (walk d tc' s live (length live)) = s"
      with that show ?thesis by (simp add: out s_def)
    next
      assume "\<exists>idx<length live.
        walk d tc' s live (Suc idx) =
          visit (live ! idx) (returns None tc' (setUpgradePartition s (live ! idx))) \<and>
        out_newSet (walk d tc' s live (length live)) = setUpgradePartition s (live ! idx) \<and>
        out_err (walk d tc' s live (length live)) = None \<and>
        out_transfers (walk d tc' s live (length live)) = [] \<and>
        revisionMismatched d tc' (live ! idx) \<and>
        (\<forall>j. idx < j \<and> j < length live \<longrightarrow> upgradedHealthy d tc' (live ! j))"
      then obtain idx where idx:
        "walk d tc' s live (Suc idx) =
           visit (live ! idx) (returns None tc' (setUpgradePartition s (live ! idx)))"
        "out_newSet out = setUpgradePartition s (live ! idx)"
        by (auto simp: out)
      from idx(2) that have "live ! idx = k" by simp
      from step [OF this] idx(1) have
        "out_transfers (visit k ((returns (Some e) tc' s)\<lparr>out_transfers := [target]\<rparr>)) =
         out_transfers (visit (live ! idx) (returns None tc' (setUpgradePartition s (live ! idx))))"
        by simp
      then show ?thesis by simp
    qed
  qed
  have reached: "out_newSet out = s \<and> out_transfers out = [target] \<and> out_err out = Some e"
    if above: "\<forall>j\<in>set live. k < j \<longrightarrow> upgradedHealthy d tc j"
  proof -
    from assms(4) obtain idx where idx: "idx < length live" "live ! idx = k"
      by (auto simp: in_set_conv_nth live_def)
    have "\<forall>j. idx < j \<and> j < length live \<longrightarrow> upgradedHealthy d tc (live ! j)"
      using sorted_index_above [OF sorted idx(1), of "upgradedHealthy d tc"] above idx(2)
      by simp
    then have up: "\<forall>j. Suc idx \<le> j \<and> j < length live \<longrightarrow> upgradedHealthy d tc' (live ! j)"
      by (simp add: tc'_def Suc_le_eq)
    have le: "Suc idx \<le> length live" using idx(1) by simp
    from walk_reaches [OF le up, of s] show ?thesis
      by (simp add: out step [OF idx(2)])
  qed
  show ?thesis
    unfolding live_def [symmetric] out_def [symmetric] e_def [symmetric]
    using safe reached by (auto simp: s_def)
qed

theorem Upgrade_leader_transfer_first_witness:
  "reachesWalk (exDeps False (exPods 3 3)) (exCluster 3 ''db-pd-2'') (exSet 3 3) (exSet 3 3) \<and>
   isLeader (exDeps False (exPods 3 3)) (exCluster 3 ''db-pd-2'') 2 \<and>
   revisionMismatched (exDeps False (exPods 3 3)) (exCluster 3 ''db-pd-2'') 2 \<and>
   cursor (out_newSet (Upgrade (exDeps False (exPods 3 3)) (exCluster 3 ''db-pd-2'')
                         (exSet 3 3) (exSet 3 3))) = Some 3 \<and>
   out_transfers (Upgrade (exDeps False (exPods 3 3)) (exCluster 3 ''db-pd-2'')
                         (exSet 3 3) (exSet 3 3)) = [''db-pd-0''] \<and>
   out_err (Upgrade (exDeps False (exPods 3 3)) (exCluster 3 ''db-pd-2'') (exSet 3 3) (exSet 3 3)) =
     Some (errTransferring ''ns'' ''db'' ''db-pd-2'' ''db-pd-0'')"
proof -
  let ?d = "exDeps False (exPods 3 3)" and ?tc = "exCluster 3 ''db-pd-2''"
  have h1: "reachesWalk ?d ?tc (exSet 3 3) (exSet 3 3)" by code_simp
  have h2: "cursor (exSet 3 3) = Some 3" by code_simp
  have h3: "Spec_Replicas (exSet 3 3) = Some 3" by code_simp
  have h4: "2 \<in> set (sets_List (GetPodOrdinals ?d 3 (exSet 3 3)))" by code_simp
  have h5: "revisionMismatched ?d ?tc 2" by code_simp
  have h6: "isLeader ?d ?tc 2" by code_simp
  have h7: "\<not> PodWebhookEnabled ?d" by code_simp
  have h8: "targetName ?d ?tc 2 (setUpgradePartition (exSet 3 3) 3) = Inr ''db-pd-0''" by code_simp
  have h9: "''db-pd-0'' \<noteq> []" by simp
  have h10: "\<forall>j\<in>set (sets_List (GetPodOrdinals ?d 3 (exSet 3 3))). 2 < j \<longrightarrow> upgradedHealthy ?d ?tc j"
    by code_simp
  have h11: "TransferPDLeader ?d ''db-pd-0'' = None" by code_simp
  have h12: "tc_Namespace ?tc = ''ns''" "tc_Name ?tc = ''db''" "Spec_ClusterDomain ?tc = []"
    "PdName ?d ''db'' 2 ''ns'' [] = ''db-pd-2''"
    by code_simp+
  from Upgrade_leader_transfer_first [OF h1 h2 h3 h4 h5 h6 h7 h8 h9] h10
  have "out_newSet (Upgrade ?d ?tc (exSet 3 3) (exSet 3 3)) = setUpgradePartition (exSet 3 3) 3"
    and "out_transfers (Upgrade ?d ?tc (exSet 3 3) (exSet 3 3)) = [''db-pd-0'']"
    and "out_err (Upgrade ?d ?tc (exSet 3 3) (exSet 3 3)) =
           Some (errTransferring ''ns'' ''db'' ''db-pd-2'' ''db-pd-0'')"
    by (simp_all add: h11 h12)
  with h1 h5 h6 show ?thesis by simp
qed

text \<open>
  C1 fails as stated. With the pod webhook enabled, a pass sets the cursor to the
  revision-mismatched leader (ordinal 2 of 3) and requests no transfer; and with the webhook
  disabled, a single replica that leads and has no healthy peer gets the cursor too.
\<close>

theorem Upgrade_leader_safety_counterexample:
  "isLeader (exDeps True (exPods 3 3)) (exCluster 3 ''db-pd-2'') 2 \<and>
   revisionMismatched (exDeps True (exPods 3 3)) (exCluster 3 ''db-pd-2'') 2 \<and>
   cursor (exSet 3 3) = Some 3 \<and>
   cursor (out_newSet (Upgrade (exDeps True (exPods 3 3)) (exCluster 3 ''db-pd-2'')
                         (exSet 3 3) (exSet 3 3))) = Some 2 \<and>
   out_transfers (Upgrade (exDeps True (exPods 3 3)) (exCluster 3 ''db-pd-2'')
                    (exSet 3 3) (exSet 3 3)) = [] \<and>
   out_err (Upgrade (exDeps True (exPods 3 3)) (exCluster 3 ''db-pd-2'')
              (exSet 3 3) (exSet 3 3)) = None \<and>
   isLeader (exDeps False (exPods 1 1)) (exCluster 1 ''db-pd-0'') 0 \<and>
   revisionMismatched (exDeps False (exPods 1 1)) (exCluster 1 ''db-pd-0'') 0 \<and>
   cursor (exSet 1 1) = Some 1 \<and>
   cursor (out_newSet (Upgrade (exDeps False (exPods 1 1)) (exCluster 1 ''db-pd-0'')
                         (exSet 1 1) (exSet 1 1))) = Some 0 \<and>
   out_transfers (Upgrade (exDeps False (exPods 1 1)) (exCluster 1 ''db-pd-0'')
                    (exSet 1 1) (exSet 1 1)) = [] \<and>
   out_err (Upgrade (exDeps False (exPods 1 1)) (exCluster 1 ''db-pd-0'')
              (exSet 1 1) (exSet 1 1)) = None"
  by code_simp

text \<open>
  C3, as the code has it. When the ordinal being upgraded holds PD leadership and no target
  is found (the target name is empty; so it is for a single replica whose peer members are
  all unhealthy or the ordinal itself), \<open>upgradePDPod\<close> requests no transfer, sets the
  cursor to that ordinal and returns no error.
\<close>

theorem upgradePDPod_no_candidate:
  assumes "isLeader d tc ordinal"
    and "targetName d tc ordinal newSet = Inr [] \<or>
         (PDStsActualReplicas tc \<le> 1 \<and>
          (\<forall>member\<in>set (pd_PeerMembers (Status_PD tc)).
              m_Name member = PdName d (tc_Name tc) ordinal (tc_Namespace tc) (Spec_ClusterDomain tc)
              \<or> \<not> m_Health member))"
  shows "upgradePDPod d tc ordinal newSet = returns None tc (setUpgradePartition newSet ordinal) \<and>
         out_err (upgradePDPod d tc ordinal newSet) = None \<and>
         cursor (out_newSet (upgradePDPod d tc ordinal newSet)) = Some ordinal \<and>
         out_transfers (upgradePDPod d tc ordinal newSet) = []"
proof -
  have "targetName d tc ordinal newSet = Inr []"
    using assms(2) by (auto simp: targetName_def Let_def firstHealthyPeer_none)
  then have "upgradePDPod d tc ordinal newSet = returns None tc (setUpgradePartition newSet ordinal)"
    by (rule upgradePDPod_no_target)
  then show ?thesis by simp
qed

theorem upgradePDPod_no_candidate_witness:
  "isLeader (exDeps False (exPods 1 1)) exSoloCluster 0 \<and>
   PDStsActualReplicas exSoloCluster \<le> 1 \<and>
   out_err (upgradePDPod (exDeps False (exPods 1 1)) exSoloCluster 0 (exSet 1 1)) = None \<and>
   cursor (out_newSet (upgradePDPod (exDeps False (exPods 1 1)) exSoloCluster 0 (exSet 1 1))) = Some 0"
proof -
  let ?d = "exDeps False (exPods 1 1)"
  have h1: "isLeader ?d exSoloCluster 0" by code_simp
  have h2: "PDStsActualReplicas exSoloCluster \<le> 1" by code_simp
  have h3: "\<forall>member\<in>set (pd_PeerMembers (Status_PD exSoloCluster)).
      m_Name member = PdName ?d (tc_Name exSoloCluster) 0 (tc_Namespace exSoloCluster)
                        (Spec_ClusterDomain exSoloCluster) \<or> \<not> m_Health member"
    by code_simp
  from upgradePDPod_no_candidate [OF h1, of "exSet 1 1"] h2 h3 h1 show ?thesis by blast
qed

text \<open>
  C3 fails as stated: the leading single replica with no healthy peer other than itself gets
  no retryable error; the cursor is set to it, and the pass returns nil.
\<close>

theorem upgradePDPod_no_candidate_counterexample:
  "isLeader (exDeps False (exPods 1 1)) exSoloCluster 0 \<and>
   targetName (exDeps False (exPods 1 1)) exSoloCluster 0 (exSet 1 1) = Inr [] \<and>
   out_err (upgradePDPod (exDeps False (exPods 1 1)) exSoloCluster 0 (exSet 1 1)) = None \<and>
   cursor (out_newSet (upgradePDPod (exDeps False (exPods 1 1)) exSoloCluster 0 (exSet 1 1))) = Some 0"
  by code_simp

text \<open>
  C4, as the code has it. When the PD status is synced and the TiCDC phase is Upgrading or
  PD is mid-scale: if the pod spec of \<open>oldSet\<close>'s last-applied configuration is recovered,
  \<open>gracefulUpgrade\<close> puts it into \<open>newSet\<close>'s pod template and returns without error,
  every other field of \<open>newSet\<close> (the cursor among them), the cluster object and the
  collaborators untouched; if it is not recovered, the pass returns that error and leaves
  \<open>newSet\<close> wholly unchanged.
\<close>

theorem gracefulUpgrade_blocked_frame:
  assumes "pd_Synced (Status_PD tc)"
    and "Status_TiCDC_Phase tc = UpgradePhase \<or> PDScaling tc"
  shows "gracefulUpgrade d tc oldSet newSet =
           (case GetLastAppliedConfig d oldSet of
              Inl err \<Rightarrow> returns (Some err) tc newSet
            | Inr podSpec \<Rightarrow> returns None tc (newSet\<lparr>Spec_Template_Spec := podSpec\<rparr>)) \<and>
         cursor (out_newSet (gracefulUpgrade d tc oldSet newSet)) = cursor newSet"
  using assms
  by (auto simp: gracefulUpgrade_def Let_def cursor_def split: sum.splits)

theorem gracefulUpgrade_blocked_frame_witness:
  "pd_Synced (Status_PD exBlockedCluster) \<and>
   Status_TiCDC_Phase exBlockedCluster = UpgradePhase \<and>
   gracefulUpgrade (exDeps False (exPods 3 3)) exBlockedCluster (exSet 3 3) exNewSet =
     returns None exBlockedCluster (exNewSet\<lparr>Spec_Template_Spec := ''pd:v2''\<rparr>)"
proof -
  have h1: "pd_Synced (Status_PD exBlockedCluster)" by code_simp
  have h2: "Status_TiCDC_Phase exBlockedCluster = UpgradePhase" by code_simp
  have h3: "GetLastAppliedConfig (exDeps False (exPods 3 3)) (exSet 3 3) = Inr ''pd:v2''"
    by code_simp
  from gracefulUpgrade_blocked_frame [OF h1 disjI1 [OF h2], of "exDeps False (exPods 3 3)" "exSet 3 3" exNewSet]
  show ?thesis using h1 h2 by (simp add: h3)
qed

text \<open>
  C4 fails as stated: in the blocked branch a pass returns an error when the last-applied
  configuration of \<open>oldSet\<close> cannot be recovered, and the template of \<open>newSet\<close> stays;
  and when the PD status is not synced a blocked pass returns the sync error.
\<close>

theorem gracefulUpgrade_blocked_counterexample:
  "pd_Synced (Status_PD exBlockedCluster) \<and>
   Status_TiCDC_Phase exBlockedCluster = UpgradePhase \<and>
   out_err (gracefulUpgrade (exDeps False (exPods 3 3)) exBlockedCluster exBareSet exNewSet) =
     Some (Errorf ''not found spec's apply config'') \<and>
   Spec_Template_Spec (out_newSet
     (gracefulUpgrade (exDeps False (exPods 3 3)) exBlockedCluster exBareSet exNewSet)) = ''pd:v3'' \<and>
   Status_TiCDC_Phase exUnsyncedCluster = UpgradePhase \<and>
   out_err (gracefulUpgrade (exDeps False (exPods 3 3)) exUnsyncedCluster (exSet 3 3) exNewSet) =
     Some (errSyncFailed ''ns'' ''db'')"
  by code_simp

text \<open>
  C5, as the code has it. On every input that gets to the strategy check (PD synced, the
  pass not blocked, the templates equal, revision drift present) and whose old update
  strategy is \<open>OnDelete\<close> or has no rolling update, \<open>gracefulUpgrade\<close> copies the old update
  strategy into \<open>newSet\<close> and returns without error. On every input with such an old
  strategy the pass fetches no pod, requests no transfer and never calls the cursor setter:
  \<open>newSet\<close> comes back unchanged, or with the frozen pod template, or with the old strategy.
\<close>

theorem gracefulUpgrade_manual_override:
  assumes "Type (Spec_UpdateStrategy oldSet) = OnDeleteStatefulSetStrategyType \<or>
           RollingUpdate (Spec_UpdateStrategy oldSet) = None"
  shows "(reachesStrategyCheck d tc oldSet newSet \<longrightarrow>
            gracefulUpgrade d tc oldSet newSet =
              returns None (markUpgrading tc)
                (newSet\<lparr>Spec_UpdateStrategy := Spec_UpdateStrategy oldSet\<rparr>)) \<and>
         out_transfers (gracefulUpgrade d tc oldSet newSet) = [] \<and>
         out_visited (gracefulUpgrade d tc oldSet newSet) = [] \<and>
         (out_newSet (gracefulUpgrade d tc oldSet newSet) = newSet \<or>
          (\<exists>podSpec. GetLastAppliedConfig d oldSet = Inr podSpec \<and>
             out_newSet (gracefulUpgrade d tc oldSet newSet) =
               newSet\<lparr>Spec_Template_Spec := podSpec\<rparr>) \<or>
          out_newSet (gracefulUpgrade d tc oldSet newSet) =
            newSet\<lparr>Spec_UpdateStrategy := Spec_UpdateStrategy oldSet\<rparr>)"
  using assms
  by (auto simp: gracefulUpgrade_def reachesStrategyCheck_def markUpgrading_def Let_def
           split: sum.splits option.splits)

theorem gracefulUpgrade_manual_override_witness:
  "Type (Spec_UpdateStrategy exOnDeleteSet) = OnDeleteStatefulSetStrategyType \<and>
   reachesStrategyCheck (exDeps False (exPods 3 3)) (exCluster 3 []) exOnDeleteSet (exSet 3 3) \<and>
   out_err (gracefulUpgrade (exDeps False (exPods 3 3)) (exCluster 3 []) exOnDeleteSet (exSet 3 3)) = None \<and>
   Spec_UpdateStrategy (out_newSet
     (gracefulUpgrade (exDeps False (exPods 3 3)) (exCluster 3 []) exOnDeleteSet (exSet 3 3))) =
     \<lparr>Type = OnDeleteStatefulSetStrategyType, RollingUpdate = None\<rparr>"
proof -
  have h1: "Type (Spec_UpdateStrategy exOnDeleteSet) = OnDeleteStatefulSetStrategyType"
    by code_simp
  have h2: "reachesStrategyCheck (exDeps False (exPods 3 3)) (exCluster 3 []) exOnDeleteSet (exSet 3 3)"
    by code_simp
  have h3: "Spec_UpdateStrategy exOnDeleteSet =
      \<lparr>Type = OnDeleteStatefulSetStrategyType, RollingUpdate = None\<rparr>"
    by (simp add: exOnDeleteSet_def)
  from gracefulUpgrade_manual_override [OF disjI1 [OF h1], of "exDeps False (exPods 3 3)" "exCluster 3 []" "exSet 3 3"] h2
  have "gracefulUpgrade (exDeps False (exPods 3 3)) (exCluster 3 []) exOnDeleteSet (exSet 3 3) =
      returns None (markUpgrading (exCluster 3 []))
        ((exSet 3 3)\<lparr>Spec_UpdateStrategy := Spec_UpdateStrategy exOnDeleteSet\<rparr>)"
    by blast
  with h1 h2 h3 show ?thesis by simp
qed

text \<open>
  C5 fails as stated: when the new template differs from the old one, the pass returns at
  line 63, before the strategy check, and the \<open>OnDelete\<close> strategy of \<open>oldSet\<close> is not
  copied: \<open>newSet\<close> keeps its rolling update. So it does on a pass with no revision drift
  (line 67) and on a blocked pass (line 58).
\<close>

theorem gracefulUpgrade_manual_override_counterexample:
  "Type (Spec_UpdateStrategy exOnDeleteSet) = OnDeleteStatefulSetStrategyType \<and>
   out_err (gracefulUpgrade (exDeps False (exPods 3 3)) (exCluster 3 []) exOnDeleteSet exNewSet) = None \<and>
   Type (Spec_UpdateStrategy (out_newSet
     (gracefulUpgrade (exDeps False (exPods 3 3)) (exCluster 3 []) exOnDeleteSet exNewSet))) =
     RollingUpdateStatefulSetStrategyType \<and>
   cursor (out_newSet
     (gracefulUpgrade (exDeps False (exPods 3 3)) (exCluster 3 []) exOnDeleteSet exNewSet)) = Some 3 \<and>
   out_err (gracefulUpgrade (exDeps False (exPods 3 3)) exIdleCluster exOnDeleteSet (exSet 3 3)) = None \<and>
   Type (Spec_UpdateStrategy (out_newSet
     (gracefulUpgrade (exDeps False (exPods 3 3)) exIdleCluster exOnDeleteSet (exSet 3 3)))) =
     RollingUpdateStatefulSetStrategyType \<and>
   out_err (gracefulUpgrade (exDeps False (exPods 3 3)) exBlockedCluster exOnDeleteSet (exSet 3 3)) = None \<and>
   Type (Spec_UpdateStrategy (out_newSet
     (gracefulUpgrade (exDeps False (exPods 3 3)) exBlockedCluster exOnDeleteSet (exSet 3 3)))) =
     RollingUpdateStatefulSetStrategyType"
  by code_simp

section \<open>Properties of the pump member manager\<close>

lemma pumpReturns_sel [simp]:
  "p_err (pumpReturns e tc acts) = e"
  "p_tc (pumpReturns e tc acts) = tc"
  "p_actions (pumpReturns e tc acts) = acts"
  by (simp_all add: pumpReturns_def)

lemma syncTiDBClusterStatus_spec:
  "syncTiDBClusterStatus d tc sset = (e, tc') \<Longrightarrow>
   Spec_Pump_Requests tc' = Spec_Pump_Requests tc \<and> tc_Namespace tc' = tc_Namespace tc \<and>
   tc_Name tc' = tc_Name tc \<and> Spec_Paused tc' = Spec_Paused tc"
  by (auto simp: syncTiDBClusterStatus_def Let_def split: option.splits sum.splits)

lemma syncTiDBClusterStatus_nil [simp]: "syncTiDBClusterStatus d tc None = (None, tc)"
  by (simp add: syncTiDBClusterStatus_def)

lemma syncConfigMap_actions:
  "syncConfigMap d tc sset = (r, acts) \<Longrightarrow> \<forall>a\<in>set acts. \<not> isCreate a \<and> \<not> isScale a \<and> \<not> isUpdate a"
  by (auto simp: syncConfigMap_def Let_def split: sum.splits)







lemma syncPump_not_found:
  assumes "pumpSetLookup d tc = Inl err" and "IsNotFound err"
  shows "syncPumpStatefulSetForTidbCluster d tc =
     (if Spec_Paused tc then pumpReturns None tc []
      else
        (case syncConfigMap d tc None of
           (Inl err, acts) \<Rightarrow> pumpReturns (Some err) tc acts
         | (Inr cm, acts) \<Rightarrow>
             (case getNewPumpStatefulSet d tc cm of
                Inl err \<Rightarrow> pumpReturns (Some err) tc acts
              | Inr newSet \<Rightarrow>
                  (case SetStatefulSetLastAppliedConfigAnnotation d newSet of
                     Inl err \<Rightarrow> pumpReturns (Some err) tc acts
                   | Inr newSet \<Rightarrow>
                       pumpReturns (do_CreateStatefulSet d tc newSet) tc
                         (acts @ [CreateStatefulSet newSet])))))"
  using assms
  by (simp add: syncPumpStatefulSetForTidbCluster_def pumpSetLookup_def Let_def
           split: sum.splits prod.splits)

lemma syncPump_lookup_failed:
  assumes "pumpSetLookup d tc = Inl err" and "\<not> IsNotFound err"
  shows "p_actions (syncPumpStatefulSetForTidbCluster d tc) = []"
  using assms
  by (simp add: syncPumpStatefulSetForTidbCluster_def pumpSetLookup_def Let_def)

lemma syncPump_not_found_actions:
  assumes "pumpSetLookup d tc = Inl err" and "IsNotFound err"
  shows "\<forall>a\<in>set (p_actions (syncPumpStatefulSetForTidbCluster d tc)). \<not> isScale a \<and> \<not> isUpdate a"
proof (cases "syncConfigMap d tc None")
  case (Pair r acts)
  from syncConfigMap_actions [OF Pair] have "\<forall>a\<in>set acts. \<not> isScale a \<and> \<not> isUpdate a"
    by blast
  then show ?thesis
    by (auto simp: syncPump_not_found [OF assms] Pair split: sum.splits)
qed

text \<open>
  C6, as the code has it. The Scaler and the StatefulSet update are invoked only on passes
  where the lister finds the pump set: on a pass where it is not found neither is. On such
  a pass that is not stopped before (the cluster not paused, the config map synced, the new
  set built, the last-applied-config annotation set), the manager creates the annotated set
  and returns what the creation returns.
\<close>

theorem syncPump_creation_short_circuit:
  "((\<exists>a\<in>set (p_actions (syncPumpStatefulSetForTidbCluster d tc)). isScale a \<or> isUpdate a) \<longrightarrow>
      (\<exists>old. pumpSetLookup d tc = Inr old)) \<and>
   (pumpSetLookup d tc = Inl err \<and> IsNotFound err \<and> \<not> Spec_Paused tc \<and>
    syncConfigMap d tc None = (Inr cm, acts) \<and>
    getNewPumpStatefulSet d tc cm = Inr newSet \<and>
    SetStatefulSetLastAppliedConfigAnnotation d newSet = Inr annotated \<longrightarrow>
      syncPumpStatefulSetForTidbCluster d tc =
        pumpReturns (do_CreateStatefulSet d tc annotated) tc (acts @ [CreateStatefulSet annotated]))"
proof (intro conjI impI)
  assume run: "\<exists>a\<in>set (p_actions (syncPumpStatefulSetForTidbCluster d tc)). isScale a \<or> isUpdate a"
  show "\<exists>old. pumpSetLookup d tc = Inr old"
  proof (cases "pumpSetLookup d tc")
    case (Inl e)
    show ?thesis
    proof (cases "IsNotFound e")
      case True
      from syncPump_not_found_actions [OF Inl True] run show ?thesis by blast
    next
      case False
      from syncPump_lookup_failed [OF Inl False] run show ?thesis by simp
    qed
  next
    case (Inr old)
    then show ?thesis by blast
  qed
next
  assume "pumpSetLookup d tc = Inl err \<and> IsNotFound err \<and> \<not> Spec_Paused tc \<and>
    syncConfigMap d tc None = (Inr cm, acts) \<and>
    getNewPumpStatefulSet d tc cm = Inr newSet \<and>
    SetStatefulSetLastAppliedConfigAnnotation d newSet = Inr annotated"
  then show "syncPumpStatefulSetForTidbCluster d tc =
      pumpReturns (do_CreateStatefulSet d tc annotated) tc (acts @ [CreateStatefulSet annotated])"
    by (simp add: syncPump_not_found)
qed

theorem syncPump_creation_short_circuit_witness:
  "IsNotFound (NotFound ''db-pump'') \<and>
   \<not> Spec_Paused (exCluster 3 []) \<and>
   map isCreate (p_actions (syncPumpStatefulSetForTidbCluster
      (exPumpDeps (Inl (NotFound ''db-pump'')) []) (exCluster 3 []))) = [False, True] \<and>
   p_err (syncPumpStatefulSetForTidbCluster
      (exPumpDeps (Inl (NotFound ''db-pump'')) []) (exCluster 3 [])) = None \<and>
   map isScale (p_actions (syncPumpStatefulSetForTidbCluster
      (exPumpDeps (Inr exObservedPumpSet) exPumpPods) (exCluster 3 []))) = [False, True, False]"
proof -
  let ?d = "exPumpDeps (Inl (NotFound ''db-pump'')) []" and ?tc = "exCluster 3 []"
  let ?cm = "\<lparr>cm_Name = ''db-pump'', cm_Data = [''pump-config'' \<mapsto> []]\<rparr>"
  let ?annotated = "(exPumpSet ?tc)\<lparr>set_Annotations := [LastAppliedConfigAnnotation \<mapsto> ''pump:v2'']\<rparr>"
  have h1: "pumpSetLookup ?d ?tc = Inl (NotFound ''db-pump'')"
    by (simp add: pumpSetLookup_def exPumpDeps_def)
  have h2: "IsNotFound (NotFound ''db-pump'')" by simp
  have h3: "\<not> Spec_Paused ?tc" by code_simp
  have h4: "syncConfigMap ?d ?tc None = (Inr ?cm, [CreateOrUpdateConfigMap ?cm])"
    by (simp add: syncConfigMap_def exPumpDeps_def exCluster_def)
  have h5: "getNewPumpStatefulSet ?d ?tc ?cm = Inr (exPumpSet ?tc)"
    by (simp add: getNewPumpStatefulSet_def exPumpDeps_def exCluster_def
          exParseStorageRequest_def exQuantityOk_def)
  have h6: "SetStatefulSetLastAppliedConfigAnnotation ?d (exPumpSet ?tc) = Inr ?annotated"
    by (simp add: exPumpDeps_def exPumpSet_def)
  have h7: "do_CreateStatefulSet ?d ?tc ?annotated = None"
    by (simp add: exPumpDeps_def)
  have h8: "pumpSetLookup ?d ?tc = Inl (NotFound ''db-pump'') \<and> IsNotFound (NotFound ''db-pump'') \<and>
      \<not> Spec_Paused ?tc \<and> syncConfigMap ?d ?tc None = (Inr ?cm, [CreateOrUpdateConfigMap ?cm]) \<and>
      getNewPumpStatefulSet ?d ?tc ?cm = Inr (exPumpSet ?tc) \<and>
      SetStatefulSetLastAppliedConfigAnnotation ?d (exPumpSet ?tc) = Inr ?annotated"
    using h1 h2 h3 h4 h5 h6 by (intro conjI)
  note short = syncPump_creation_short_circuit [of ?d ?tc "NotFound ''db-pump''" ?cm
      "[CreateOrUpdateConfigMap ?cm]" "exPumpSet ?tc" ?annotated]
  have "syncPumpStatefulSetForTidbCluster ?d ?tc =
      pumpReturns (do_CreateStatefulSet ?d ?tc ?annotated) ?tc
        ([CreateOrUpdateConfigMap ?cm] @ [CreateStatefulSet ?annotated])"
    by (rule short [THEN conjunct2, THEN mp, OF h8])
  then have "map isCreate (p_actions (syncPumpStatefulSetForTidbCluster ?d ?tc)) = [False, True]"
    and "p_err (syncPumpStatefulSetForTidbCluster ?d ?tc) = None"
    by (simp_all add: h7)
  moreover have "map isScale (p_actions (syncPumpStatefulSetForTidbCluster
      (exPumpDeps (Inr exObservedPumpSet) exPumpPods) (exCluster 3 []))) = [False, True, False]"
    by code_simp
  ultimately show ?thesis using h2 h3 by simp
qed

text \<open>
  C6 fails as stated: on a pass where the pump set is not found and the cluster is paused,
  the manager returns at line 92 and creates nothing; and where the new set cannot be
  built (a malformed storage request), it returns that error at line 102 and creates
  nothing either.
\<close>

theorem syncPump_creation_counterexample:
  "pumpSetLookup (exPumpDeps (Inl (NotFound ''db-pump'')) []) exPausedCluster =
     Inl (NotFound ''db-pump'') \<and>
   IsNotFound (NotFound ''db-pump'') \<and>
   Spec_Paused exPausedCluster \<and>
   map isCreate (p_actions (syncPumpStatefulSetForTidbCluster
      (exPumpDeps (Inl (NotFound ''db-pump'')) []) exPausedCluster)) = [] \<and>
   p_err (syncPumpStatefulSetForTidbCluster
      (exPumpDeps (Inl (NotFound ''db-pump'')) []) exPausedCluster) = None \<and>
   map isCreate (p_actions (syncPumpStatefulSetForTidbCluster
      (exPumpDeps (Inl (NotFound ''db-pump'')) []) exBadStorageCluster)) = [False] \<and>
   p_err (syncPumpStatefulSetForTidbCluster
      (exPumpDeps (Inl (NotFound ''db-pump'')) []) exBadStorageCluster) =
     Some (errParseStorage ''ns'' ''db'' (Errorf ''cannot parse storage quantity ten gigs''))"
proof -
  have "pumpSetLookup (exPumpDeps (Inl (NotFound ''db-pump'')) []) exPausedCluster =
      Inl (NotFound ''db-pump'')"
    by (simp add: pumpSetLookup_def exPumpDeps_def)
  moreover have "Spec_Paused exPausedCluster" by code_simp
  moreover have "map isCreate (p_actions (syncPumpStatefulSetForTidbCluster
      (exPumpDeps (Inl (NotFound ''db-pump'')) []) exPausedCluster)) = []"
    by code_simp
  moreover have "p_err (syncPumpStatefulSetForTidbCluster
      (exPumpDeps (Inl (NotFound ''db-pump'')) []) exPausedCluster) = None"
    by code_simp
  moreover have "map isCreate (p_actions (syncPumpStatefulSetForTidbCluster
      (exPumpDeps (Inl (NotFound ''db-pump'')) []) exBadStorageCluster)) = [False]"
    by code_simp
  moreover have "p_err (syncPumpStatefulSetForTidbCluster
      (exPumpDeps (Inl (NotFound ''db-pump'')) []) exBadStorageCluster) =
     Some (errParseStorage ''ns'' ''db'' (Errorf ''cannot parse storage quantity ten gigs''))"
    by code_simp
  ultimately show ?thesis by simp
qed

lemma getNewPumpStatefulSet_parse_error:
  "ParseStorageRequest d (Spec_Pump_Requests tc) = Inl err \<Longrightarrow>
   getNewPumpStatefulSet d tc cm = Inl (errParseStorage (tc_Namespace tc) (tc_Name tc) err)"
  by (simp add: getNewPumpStatefulSet_def)

lemma syncPump_parse_error:
  assumes parse: "ParseStorageRequest d (Spec_Pump_Requests tc) = Inl err"
  shows "syncPumpStatefulSetForTidbCluster d tc =
     (case pumpSetLookup d tc of
        Inl e \<Rightarrow>
          if \<not> IsNotFound e
          then pumpReturns (Some (errGetSts (PumpMemberName d (tc_Name tc)) (tc_Namespace tc)
                 (tc_Name tc) e)) tc []
          else if Spec_Paused tc then pumpReturns None tc []
          else
            (case syncConfigMap d tc None of
               (Inl e', acts) \<Rightarrow> pumpReturns (Some e') tc acts
             | (Inr cm, acts) \<Rightarrow>
                 pumpReturns (Some (errParseStorage (tc_Namespace tc) (tc_Name tc) err)) tc acts)
      | Inr old \<Rightarrow>
          (case syncTiDBClusterStatus d tc (Some old) of
             (Some e', tc') \<Rightarrow> pumpReturns (Some e') tc' []
           | (None, tc') \<Rightarrow>
               if Spec_Paused tc' then pumpReturns None tc' []
               else
                 (case syncConfigMap d tc' (Some old) of
                    (Inl e', acts) \<Rightarrow> pumpReturns (Some e') tc' acts
                  | (Inr cm, acts) \<Rightarrow>
                      pumpReturns (Some (errParseStorage (tc_Namespace tc) (tc_Name tc) err))
                        tc' acts)))"
proof (cases "pumpSetLookup d tc")
  case (Inl e)
  then show ?thesis
    using parse
    by (simp add: syncPumpStatefulSetForTidbCluster_def pumpSetLookup_def Let_def
          getNewPumpStatefulSet_parse_error split: prod.splits sum.splits)
next
  case (Inr old)
  obtain e' tc' where st: "syncTiDBClusterStatus d tc (Some old) = (e', tc')"
    by (cases "syncTiDBClusterStatus d tc (Some old)")
  from syncTiDBClusterStatus_spec [OF st] parse
  have parse': "ParseStorageRequest d (Spec_Pump_Requests tc') = Inl err"
    and names: "tc_Namespace tc' = tc_Namespace tc" "tc_Name tc' = tc_Name tc"
    by simp_all
  show ?thesis
    using Inr st getNewPumpStatefulSet_parse_error [OF parse'] names
    by (simp add: syncPumpStatefulSetForTidbCluster_def pumpSetLookup_def Let_def
          split: prod.splits sum.splits option.splits)
qed

text \<open>
  C7. If parsing the pump storage request fails, \<open>getNewPumpStatefulSet\<close> returns a plain
  error (a \<open>fmt.Errorf\<close>, not a requeue error); the sync pass then neither creates nor scales
  nor updates the StatefulSet; and a pass that gets to \<open>getNewPumpStatefulSet\<close> returns that
  very error.
\<close>

theorem getNewPumpStatefulSet_storage_fatal:
  assumes "ParseStorageRequest d (Spec_Pump_Requests tc) = Inl err"
  shows "getNewPumpStatefulSet d tc cm = Inl (errParseStorage (tc_Namespace tc) (tc_Name tc) err) \<and>
         \<not> IsRequeueError (errParseStorage (tc_Namespace tc) (tc_Name tc) err) \<and>
         (\<forall>a\<in>set (p_actions (syncPumpStatefulSetForTidbCluster d tc)).
             \<not> isCreate a \<and> \<not> isScale a \<and> \<not> isUpdate a) \<and>
         (reachesNewSet d tc \<longrightarrow>
            p_err (syncPumpStatefulSetForTidbCluster d tc) =
              Some (errParseStorage (tc_Namespace tc) (tc_Name tc) err))"
proof -
  note eq = syncPump_parse_error [OF assms]
  have plain: "\<not> IsRequeueError (errParseStorage (tc_Namespace tc) (tc_Name tc) err)"
    by (simp add: errParseStorage_def)
  have acts: "\<forall>a\<in>set (p_actions (syncPumpStatefulSetForTidbCluster d tc)).
      \<not> isCreate a \<and> \<not> isScale a \<and> \<not> isUpdate a"
    unfolding eq
    by (auto split: sum.splits prod.splits option.splits dest: syncConfigMap_actions)
  have surfaced: "p_err (syncPumpStatefulSetForTidbCluster d tc) =
      Some (errParseStorage (tc_Namespace tc) (tc_Name tc) err)" if "reachesNewSet d tc"
    using that unfolding eq
    by (auto simp: reachesNewSet_def oldPumpSet_def split: sum.splits prod.splits option.splits)
  from getNewPumpStatefulSet_parse_error [OF assms] plain acts surfaced show ?thesis by blast
qed

theorem getNewPumpStatefulSet_storage_fatal_witness:
  "ParseStorageRequest (exPumpDeps (Inl (NotFound ''db-pump'')) [])
      (Spec_Pump_Requests exBadStorageCluster) =
     Inl (Errorf ''cannot parse storage quantity ten gigs'') \<and>
   reachesNewSet (exPumpDeps (Inl (NotFound ''db-pump'')) []) exBadStorageCluster \<and>
   p_err (syncPumpStatefulSetForTidbCluster (exPumpDeps (Inl (NotFound ''db-pump'')) [])
            exBadStorageCluster) =
     Some (errParseStorage ''ns'' ''db'' (Errorf ''cannot parse storage quantity ten gigs'')) \<and>
   map isCreate (p_actions (syncPumpStatefulSetForTidbCluster
      (exPumpDeps (Inl (NotFound ''db-pump'')) []) exBadStorageCluster)) = [False]"
proof -
  let ?d = "exPumpDeps (Inl (NotFound ''db-pump'')) []"
  have h1: "ParseStorageRequest ?d (Spec_Pump_Requests exBadStorageCluster) =
      Inl (Errorf ''cannot parse storage quantity ten gigs'')" by code_simp
  have h2: "reachesNewSet ?d exBadStorageCluster" by code_simp
  have h3: "tc_Namespace exBadStorageCluster = ''ns''" "tc_Name exBadStorageCluster = ''db''"
    by code_simp+
  have h4: "map isCreate (p_actions (syncPumpStatefulSetForTidbCluster ?d exBadStorageCluster)) = [False]"
    by code_simp
  from getNewPumpStatefulSet_storage_fatal [OF h1] h2
  have "p_err (syncPumpStatefulSetForTidbCluster ?d exBadStorageCluster) =
      Some (errParseStorage (tc_Namespace exBadStorageCluster) (tc_Name exBadStorageCluster)
              (Errorf ''cannot parse storage quantity ten gigs''))"
    by blast
  with h1 h2 h4 show ?thesis by (simp add: h3)
qed

section \<open>Properties of the backup schedule manager\<close>

lemma missedTimes_cap:
  "length acc \<le> 100 \<Longrightarrow> n = 100 - length acc \<Longrightarrow>
   \<forall>k\<le>n. \<not> After ((sched ^^ k) t) now \<Longrightarrow>
   missedTimes sched now t acc = None"
proof (induction n arbitrary: t acc)
  case 0
  then have "\<not> After t now" and "length acc = 100" by auto
  then show ?case by (simp add: missedTimes.simps [of sched now t acc])
next
  case (Suc n)
  from Suc.prems have now: "\<not> After t now" by (metis funpow_0 le0)
  from Suc.prems have len: "length acc < 100" by simp
  have "\<forall>k\<le>n. \<not> After ((sched ^^ k) (sched t)) now"
  proof (intro allI impI)
    fix k assume "k \<le> n"
    then have "Suc k \<le> Suc n" by simp
    with Suc.prems(3) have "\<not> After ((sched ^^ Suc k) t) now" by blast
    then show "\<not> After ((sched ^^ k) (sched t)) now" by (simp add: funpow_swap1)
  qed
  moreover have "length (acc @ [t]) \<le> 100" "n = 100 - length (acc @ [t])"
    using Suc.prems len by simp_all
  ultimately have "missedTimes sched now (sched t) (acc @ [t]) = None"
    by (rule Suc.IH [rotated 2])
  with now len show ?case by (simp add: missedTimes.simps [of sched now t acc])
qed

text \<open>
  C8. If more than 100 scheduled times were missed (the first 101 occurrences of the schedule
  after the earliest reference time are all not after now), \<open>getLastScheduledTime\<close> returns
  no scheduled time, and \<open>Sync\<close> asks for no backup in that pass. The error is nil, except
  on the recovery from a pause (no last backup time, a clean time set), where the clean
  time is refreshed and a requeue error returned.
\<close>

theorem getLastScheduledTime_cap:
  assumes "ParseStandard d (Spec_Schedule bs) = Inr sched"
    and "\<forall>k\<in>{1..101}. \<not> After ((sched ^^ k) (earliestTime bs)) (nowFn d 0)"
  shows "fst (getLastScheduledTime d bs) = None \<and>
         s_created (Sync d bs) = [] \<and>
         getLastScheduledTime d bs =
           (if \<not> After (earliestTime bs) (nowFn d 0) \<and>
               Status_LastBackupTime bs = None \<and> Status_AllBackupCleanTime bs \<noteq> None
            then (None, Some (errRefreshCleanTime (bs_Namespace bs) (bs_Name bs)),
                  bs\<lparr>Status_AllBackupCleanTime := Some (nowFn d 1)\<rparr>)
            else (None, None, bs))"
proof -
  have "\<forall>k\<le>100. \<not> After ((sched ^^ k) (sched (earliestTime bs))) (nowFn d 0)"
  proof (intro allI impI)
    fix k :: nat assume "k \<le> 100"
    then have "Suc k \<in> {1..101}" by simp
    with assms(2) have "\<not> After ((sched ^^ Suc k) (earliestTime bs)) (nowFn d 0)" by blast
    then show "\<not> After ((sched ^^ k) (sched (earliestTime bs))) (nowFn d 0)"
      by (simp add: funpow_swap1)
  qed
  then have cap: "missedTimes sched (nowFn d 0) (sched (earliestTime bs)) [] = None"
    by (intro missedTimes_cap) simp_all
  have eq: "getLastScheduledTime d bs =
      (if \<not> After (earliestTime bs) (nowFn d 0) \<and>
          Status_LastBackupTime bs = None \<and> Status_AllBackupCleanTime bs \<noteq> None
       then (None, Some (errRefreshCleanTime (bs_Namespace bs) (bs_Name bs)),
             bs\<lparr>Status_AllBackupCleanTime := Some (nowFn d 1)\<rparr>)
       else (None, None, bs))"
    using assms(1) cap by (simp add: getLastScheduledTime_def Let_def)
  then have none: "fst (getLastScheduledTime d bs) = None" by simp
  have "s_created (Sync d bs) = []"
  proof (cases "getLastScheduledTime d bs")
    case (fields t e bs')
    with none have "t = None" by simp
    with fields show ?thesis
      by (simp add: Sync_def split: option.splits)
  qed
  with none eq show ?thesis by blast
qed

theorem getLastScheduledTime_cap_witness:
  "ParseStandard exBackupDeps (Spec_Schedule exSchedule) = Inr (\<lambda>t. (t div 60 + 1) * 60) \<and>
   \<not> After (((\<lambda>t. (t div 60 + 1) * 60) ^^ 101) (earliestTime exSchedule))
             (nowFn exBackupDeps 0) \<and>
   fst (getLastScheduledTime exBackupDeps exSchedule) = None \<and>
   s_created (Sync exBackupDeps exSchedule) = [] \<and>
   s_err (Sync exBackupDeps exSchedule) = None"
proof -
  have h1: "ParseStandard exBackupDeps (Spec_Schedule exSchedule) = Inr (\<lambda>t. (t div 60 + 1) * 60)"
    by (simp add: exBackupDeps_def exSchedule_def)
  have iter: "((\<lambda>t::int. (t div 60 + 1) * 60) ^^ k) 0 = 60 * int k" for k
    by (induction k) simp_all
  have start: "earliestTime exSchedule = 0" "nowFn exBackupDeps 0 = 100000"
    by (simp_all add: earliestTime_def exSchedule_def exBackupDeps_def)
  have h2: "\<forall>k\<in>{1..101}. \<not> After (((\<lambda>t. (t div 60 + 1) * 60) ^^ k) (earliestTime exSchedule))
                           (nowFn exBackupDeps 0)"
    unfolding start iter After_def by auto
  from getLastScheduledTime_cap [OF h1 h2]
  have h3: "fst (getLastScheduledTime exBackupDeps exSchedule) = None"
    and h4: "s_created (Sync exBackupDeps exSchedule) = []"
    and h5: "getLastScheduledTime exBackupDeps exSchedule =
      (if \<not> After (earliestTime exSchedule) (nowFn exBackupDeps 0) \<and>
          Status_LastBackupTime exSchedule = None \<and> Status_AllBackupCleanTime exSchedule \<noteq> None
       then (None, Some (errRefreshCleanTime (bs_Namespace exSchedule) (bs_Name exSchedule)),
             exSchedule\<lparr>Status_AllBackupCleanTime := Some (nowFn exBackupDeps 1)\<rparr>)
       else (None, None, exSchedule))"
    by blast+
  have h6: "Status_LastBackupTime exSchedule \<noteq> None" "\<not> Spec_Pause exSchedule"
    "canPerformNextBackup exBackupDeps exSchedule = None"
    by code_simp+
  from h5 h6 have "s_err (Sync exBackupDeps exSchedule) = None"
    by (simp add: Sync_def)
  moreover from h2 have "\<not> After (((\<lambda>t. (t div 60 + 1) * 60) ^^ 101) (earliestTime exSchedule))
             (nowFn exBackupDeps 0)"
    by simp
  ultimately show ?thesis using h1 h3 h4 by blast
qed

end
